theory Spec2Isabelle
  imports Complex_Main "HOL-Library.Multiset" "HOL-Library.Log_Nat"
begin

section \<open>JavaScript strings and the regular expressions the code uses\<close>

text \<open>
  A JavaScript string is modelled as a \<^typ>\<open>string\<close>: a list of code units, here the
  code units below 256. The source only ever tests for ASCII characters and for the
  white space of \<^verbatim>\<open>\s\<close> and \<^verbatim>\<open>trim()\<close>; of that class the members below 256 are
  TAB, LF, VT, FF, CR, SPACE and NBSP.
\<close>

definition LF :: char where
  "LF = CHR 0x0A"

definition isSpace :: "char \<Rightarrow> bool" where
  "isSpace c = (c \<in> set [CHR 0x09, CHR 0x0A, CHR 0x0B, CHR 0x0C, CHR 0x0D, CHR 0x20, CHR 0xA0])"

definition isDigit :: "char \<Rightarrow> bool" where
  "isDigit c = (c \<in> set ''0123456789'')"

text \<open>The line terminators that \<^verbatim>\<open>.\<close> does not match (those below 256).\<close>

definition lineTerminator :: "char \<Rightarrow> bool" where
  "lineTerminator c = (c = CHR 0x0A \<or> c = CHR 0x0D)"

text \<open>
  Case folding of the \<^verbatim>\<open>i\<close> flag. Without the \<^verbatim>\<open>u\<close> flag a code unit of 128 or
  more is never identified with an ASCII one, so only the ASCII letters fold.
\<close>

definition foldCase :: "char \<Rightarrow> char" where
  "foldCase c =
     (case map_of (zip ''ABCDEFGHIJKLMNOPQRSTUVWXYZ'' ''abcdefghijklmnopqrstuvwxyz'') c of
        Some d \<Rightarrow> d
      | None \<Rightarrow> c)"

definition isLetter :: "char \<Rightarrow> bool" where
  "isLetter c = (foldCase c \<in> set ''abcdefghijklmnopqrstuvwxyz'')"

text \<open>\<^verbatim>\<open>s.startsWith(p)\<close>, and the same up to the case of ASCII letters.\<close>

fun startsWith :: "string \<Rightarrow> string \<Rightarrow> bool" where
  "startsWith s [] = True"
| "startsWith [] (p # ps) = False"
| "startsWith (c # cs) (p # ps) = (c = p \<and> startsWith cs ps)"

fun startsWithCI :: "string \<Rightarrow> string \<Rightarrow> bool" where
  "startsWithCI s [] = True"
| "startsWithCI [] (p # ps) = False"
| "startsWithCI (c # cs) (p # ps) = (foldCase c = foldCase p \<and> startsWithCI cs ps)"

text \<open>Some suffix of the string satisfies \<open>P\<close>: an unanchored search.\<close>

primrec anywhere :: "(string \<Rightarrow> bool) \<Rightarrow> string \<Rightarrow> bool" where
  "anywhere P [] = P []"
| "anywhere P (c # cs) = (P (c # cs) \<or> anywhere P cs)"

text \<open>\<^verbatim>\<open>s.includes(p)\<close> and \<^verbatim>\<open>s.endsWith(p)\<close>.\<close>

definition includesStr :: "string \<Rightarrow> string \<Rightarrow> bool" where
  "includesStr s p = anywhere (\<lambda>t. startsWith t p) s"

definition endsWith :: "string \<Rightarrow> string \<Rightarrow> bool" where
  "endsWith s p = (length p \<le> length s \<and> drop (length s - length p) s = p)"

text \<open>
  \<open>P\<close> holds after skipping some run of characters that \<^verbatim>\<open>.\<close> matches: the
  continuation of \<^verbatim>\<open>.*\<close>.
\<close>

primrec afterGap :: "(string \<Rightarrow> bool) \<Rightarrow> string \<Rightarrow> bool" where
  "afterGap P [] = P []"
| "afterGap P (c # cs) = (P (c # cs) \<or> (\<not> lineTerminator c \<and> afterGap P cs))"

text \<open>
  The classifier's patterns are literals joined by \<^verbatim>\<open>.*\<close>, all with the \<^verbatim>\<open>i\<close>
  flag: \<^verbatim>\<open>/video.*not available/i\<close> is \<open>[''video'', ''not available'']\<close>.
  \<open>matchHere\<close> matches such a pattern at the start of the string, \<open>regexTest\<close> is
  \<^verbatim>\<open>pattern.test(s)\<close>.
\<close>

primrec matchHere :: "string list \<Rightarrow> string \<Rightarrow> bool" where
  "matchHere [] = (\<lambda>s. True)"
| "matchHere (l # ls) =
     (\<lambda>s. startsWithCI s l \<and> (ls = [] \<or> afterGap (matchHere ls) (drop (length l) s)))"

definition regexTest :: "string list \<Rightarrow> string \<Rightarrow> bool" where
  "regexTest pat s = anywhere (matchHere pat) s"

section \<open>JavaScript numbers\<close>

text \<open>
  A JavaScript number is an IEEE 754 double: a finite value, which is a rational, or one
  of the infinities, or NaN. The sign of a zero is not kept; it shows in none of the
  operations below. A counter that the code only increments from 0 is a \<^typ>\<open>nat\<close>:
  such a count is exact as a double below \<open>2 ^ 53\<close>.
\<close>

datatype number = Num rat | PosInfinity | NegInfinity | NaN

text \<open>
  Rounding to the nearest double, ties to the even significand: 53 bits of significand,
  exponents down to \<open>-1022\<close>, subnormal numbers below. \<open>roundRat\<close> rounds without
  regard to overflow; \<open>roundD\<close> is the rounding of the arithmetic operations, which
  overflows to an infinity from \<open>2 ^ 1024\<close> on.
\<close>

definition pow2 :: "int \<Rightarrow> rat" where
  "pow2 e = (if 0 \<le> e then 2 ^ nat e else 1 / 2 ^ nat (- e))"

text \<open>The exponent \<open>e\<close> with \<open>2 ^ e \<le> x < 2 ^ (e + 1)\<close>, for a positive \<open>x\<close>.\<close>

definition floorLog2 :: "rat \<Rightarrow> int" where
  "floorLog2 x =
     (let (p, q) = quotient_of x; b = bitlen p - bitlen q
      in if pow2 b \<le> x then b else b - 1)"

definition roundHalfEven :: "rat \<Rightarrow> int" where
  "roundHalfEven q =
     (let f = \<lfloor>q\<rfloor>; r = q - of_int f
      in if r < 1 / 2 then f else if 1 / 2 < r then f + 1 else if even f then f else f + 1)"

definition roundRat :: "rat \<Rightarrow> rat" where
  "roundRat x =
     (if x = 0 then 0
      else
        (let a = \<bar>x\<bar>;
             e = max (floorLog2 a) (- 1022);
             ulp = pow2 (e - 52);
             y = of_int (roundHalfEven (a / ulp)) * ulp
         in if x < 0 then - y else y))"

definition roundD :: "rat \<Rightarrow> number" where
  "roundD x =
     (let y = roundRat x
      in if pow2 1024 \<le> y then PosInfinity
         else if y \<le> - pow2 1024 then NegInfinity
         else Num y)"

text \<open>The product \<^verbatim>\<open>x * y\<close>.\<close>

fun signOf :: "number \<Rightarrow> rat" where
  "signOf (Num a) = sgn a"
| "signOf PosInfinity = 1"
| "signOf NegInfinity = - 1"
| "signOf NaN = 0"

fun jsMul :: "number \<Rightarrow> number \<Rightarrow> number" where
  "jsMul (Num a) (Num b) = roundD (a * b)"
| "jsMul NaN y = NaN"
| "jsMul x NaN = NaN"
| "jsMul x y =
     (let s = signOf x * signOf y
      in if s = 0 then NaN else if 0 < s then PosInfinity else NegInfinity)"

text \<open>\<^verbatim>\<open>Math.min(x, y)\<close>, and the comparisons \<^verbatim>\<open>x <= y\<close> and \<^verbatim>\<open>x > y\<close>.\<close>

fun jsMin :: "number \<Rightarrow> number \<Rightarrow> number" where
  "jsMin NaN y = NaN"
| "jsMin x NaN = NaN"
| "jsMin NegInfinity y = NegInfinity"
| "jsMin x NegInfinity = NegInfinity"
| "jsMin PosInfinity y = y"
| "jsMin x PosInfinity = x"
| "jsMin (Num a) (Num b) = Num (min a b)"

fun jsLe :: "number \<Rightarrow> number \<Rightarrow> bool" where
  "jsLe NaN y = False"
| "jsLe x NaN = False"
| "jsLe NegInfinity y = True"
| "jsLe x PosInfinity = True"
| "jsLe PosInfinity y = False"
| "jsLe x NegInfinity = False"
| "jsLe (Num a) (Num b) = (a \<le> b)"

fun jsGt :: "number \<Rightarrow> number \<Rightarrow> bool" where
  "jsGt NaN y = False"
| "jsGt x NaN = False"
| "jsGt PosInfinity PosInfinity = False"
| "jsGt NegInfinity y = False"
| "jsGt PosInfinity y = True"
| "jsGt x PosInfinity = False"
| "jsGt x NegInfinity = True"
| "jsGt (Num a) (Num b) = (b < a)"

text \<open>
  \<^verbatim>\<open>Math.pow(x, k)\<close> for a count \<open>k\<close>. The language fixes the result for the
  exponent 0 and for a base that is NaN, infinite or zero, and leaves the rest to the
  implementation, as an approximation. The engines compute it to within less than one
  unit in the last place, so the result is the power itself whenever that is a double;
  every other result is the parameter \<open>approx\<close>.
\<close>

definition mathPow :: "(rat \<Rightarrow> nat \<Rightarrow> number) \<Rightarrow> number \<Rightarrow> nat \<Rightarrow> number" where
  "mathPow approx x k =
     (if k = 0 then Num 1
      else
        (case x of
           NaN \<Rightarrow> NaN
         | PosInfinity \<Rightarrow> PosInfinity
         | NegInfinity \<Rightarrow> if odd k then NegInfinity else PosInfinity
         | Num r \<Rightarrow>
             if r = 0 then Num 0
             else if roundD (r ^ k) = Num (r ^ k) then Num (r ^ k)
             else approx r k))"

section \<open>Errors (utils/errors.js)\<close>

text \<open>
  The error classes of the application. \<open>Error\<close> is a plain \<^verbatim>\<open>Error\<close> (or any
  other class that is not one of the application's own), as the external tool and the
  libraries throw.
\<close>

datatype js_error =
    DownloadError string string bool
  | ParseError string string
  | FileOperationError string string string
  | Error string

fun message :: "js_error \<Rightarrow> string" where
  "message (DownloadError m v r) = m"
| "message (ParseError m p) = m"
| "message (FileOperationError m p operation) = m"
| "message (Error m) = m"

definition nonRetryablePatterns :: "string list list" where
  "nonRetryablePatterns =
     [[''video'', ''not available''],
      [''video'', ''private''],
      [''video'', ''deleted''],
      [''video'', ''removed''],
      [''invalid'', ''url''],
      [''404''],
      [''no'', ''subtitle''],
      [''subtitle'', ''not'', ''available''],
      [''permission denied''],
      [''access denied'']]"

definition retryablePatterns :: "string list list" where
  "retryablePatterns =
     [[''network''],
      [''timeout''],
      [''ECONNRESET''],
      [''ETIMEDOUT''],
      [''ENOTFOUND''],
      [''rate'', ''limit''],
      [''too many requests''],
      [''503''],
      [''502'']]"

text \<open>
  \<^verbatim>\<open>isRetryableError(error)\<close>: the non-retryable patterns are tried first, then the
  flag of a \<open>DownloadError\<close>, then the retryable patterns.
\<close>

fun isRetryableError :: "js_error \<Rightarrow> bool" where
  "isRetryableError e =
     (let errorMessage = message e in
      if list_ex (\<lambda>pattern. regexTest pattern errorMessage) nonRetryablePatterns then False
      else (case e of
              DownloadError m v r \<Rightarrow> r
            | _ \<Rightarrow> list_ex (\<lambda>pattern. regexTest pattern errorMessage) retryablePatterns))"

section \<open>Retry with exponential backoff (lib/retry.js)\<close>

record config =
  DEFAULT_MAX_RETRIES :: number
  RETRY_BASE_DELAY :: number
  RETRY_MAX_DELAY :: number
  RETRY_BACKOFF_FACTOR :: number

definition CONFIG :: config where
  "CONFIG = \<lparr>DEFAULT_MAX_RETRIES = Num 3, RETRY_BASE_DELAY = Num 1000,
             RETRY_MAX_DELAY = Num 30000, RETRY_BACKOFF_FACTOR = Num 2\<rparr>"

text \<open>The options object: a field that is absent takes its default from \<open>CONFIG\<close>.\<close>

record retry_options =
  maxRetries :: "number option"
  baseDelay :: "number option"
  maxDelay :: "number option"
  backoffFactor :: "number option"

definition noOptions :: retry_options where
  "noOptions = \<lparr>maxRetries = None, baseDelay = None, maxDelay = None, backoffFactor = None\<rparr>"

definition orDefault :: "'a option \<Rightarrow> 'a \<Rightarrow> 'a" where
  "orDefault v d = (case v of None \<Rightarrow> d | Some x \<Rightarrow> x)"

text \<open>
  The option \<^verbatim>\<open>context\<close> only labels the log lines, which are left out.
  How a call of \<open>withRetry\<close> ends: it returns the operation's result, or throws an
  error, or throws \<^verbatim>\<open>lastError\<close> while that is still \<^verbatim>\<open>undefined\<close>.
\<close>

datatype 'r completion = Returned 'r | Threw js_error | ThrewUndefined

text \<open>
  What a call of \<open>withRetry\<close> did: how it ended, how often it invoked the operation,
  and the delays it slept, in order.
\<close>

record 'r retry_run =
  outcome :: "'r completion"
  calls :: nat
  delays :: "number list"

text \<open>
  The wrapped operation is a function of the number of invocations made before: \<open>fn k\<close>
  is what its invocation number \<open>k\<close> (from 0) does, \<open>Inl\<close> the error it throws.
  \<open>retryLoop\<close> is the \<^verbatim>\<open>while\<close> loop, entered with the current values of
  \<^verbatim>\<open>attempt\<close> and \<^verbatim>\<open>lastError\<close>. With \<^verbatim>\<open>maxRetries\<close> infinite and an operation
  that keeps failing with retryable errors the loop does not end: the result is then
  \<open>None\<close>.
\<close>

partial_function (option) retryLoop ::
  "(rat \<Rightarrow> nat \<Rightarrow> number) \<Rightarrow> (nat \<Rightarrow> js_error + 'r) \<Rightarrow>
   number \<Rightarrow> number \<Rightarrow> number \<Rightarrow> number \<Rightarrow>
   nat \<Rightarrow> js_error option \<Rightarrow> nat \<Rightarrow> number list \<Rightarrow> 'r retry_run option" where
  "retryLoop approx fn maxR base maxD factor attempt lastError n ds =
     (if jsLe (Num (of_nat attempt)) maxR then
        (case fn n of
           Inr r \<Rightarrow> Some \<lparr>outcome = Returned r, calls = Suc n, delays = ds\<rparr>
         | Inl e \<Rightarrow>
             (let attempt' = attempt + 1 in
              if \<not> isRetryableError e then
                Some \<lparr>outcome = Threw e, calls = Suc n, delays = ds\<rparr>
              else if jsGt (Num (of_nat attempt')) maxR then
                Some \<lparr>outcome = Threw e, calls = Suc n, delays = ds\<rparr>
              else
                (let delay = jsMin (jsMul base (mathPow approx factor (attempt' - 1))) maxD in
                 retryLoop approx fn maxR base maxD factor attempt' (Some e) (Suc n)
                   (ds @ [delay]))))
      else
        Some \<lparr>outcome = (case lastError of None \<Rightarrow> ThrewUndefined | Some e \<Rightarrow> Threw e),
              calls = n, delays = ds\<rparr>)"

declare retryLoop.simps [code]

definition withRetry ::
  "(rat \<Rightarrow> nat \<Rightarrow> number) \<Rightarrow> (nat \<Rightarrow> js_error + 'r) \<Rightarrow> retry_options \<Rightarrow>
   'r retry_run option" where
  "withRetry approx fn options =
     retryLoop approx fn
       (orDefault (maxRetries options) (DEFAULT_MAX_RETRIES CONFIG))
       (orDefault (baseDelay options) (RETRY_BASE_DELAY CONFIG))
       (orDefault (maxDelay options) (RETRY_MAX_DELAY CONFIG))
       (orDefault (backoffFactor options) (RETRY_BACKOFF_FACTOR CONFIG))
       0 None 0 []"

section \<open>More of JavaScript's string operations\<close>

text \<open>\<^verbatim>\<open>s.split(d)\<close> for a one-character separator, and \<^verbatim>\<open>lines.join(sep)\<close>.\<close>

fun splitOn :: "char \<Rightarrow> string \<Rightarrow> string list" where
  "splitOn d [] = [[]]"
| "splitOn d (c # cs) =
     (if c = d then [] # splitOn d cs
      else (case splitOn d cs of
              [] \<Rightarrow> [[c]]
            | l # ls \<Rightarrow> (c # l) # ls))"

fun joinWith :: "string \<Rightarrow> string list \<Rightarrow> string" where
  "joinWith sep [] = []"
| "joinWith sep [x] = x"
| "joinWith sep (x # y # zs) = x @ sep @ joinWith sep (y # zs)"

text \<open>\<^verbatim>\<open>s.trim()\<close>.\<close>

definition trim :: "string \<Rightarrow> string" where
  "trim s = rev (dropWhile isSpace (rev (dropWhile isSpace s)))"

text \<open>A string starts with one character of each class, in order.\<close>

fun matchClasses :: "(char \<Rightarrow> bool) list \<Rightarrow> string \<Rightarrow> bool" where
  "matchClasses [] s = True"
| "matchClasses (p # ps) [] = False"
| "matchClasses (p # ps) (c # cs) = (p c \<and> matchClasses ps cs)"

text \<open>\<^verbatim>\<open>\d{2}:\d{2}:\d{2}\.\d{3}\<close>, twelve characters.\<close>

definition timecode :: "(char \<Rightarrow> bool) list" where
  "timecode = [isDigit, isDigit, (=) CHR '':'', isDigit, isDigit, (=) CHR '':'',
               isDigit, isDigit, (=) CHR ''.'', isDigit, isDigit, isDigit]"

text \<open>\<^verbatim>\<open>text.replace(/<\d{2}:\d{2}:\d{2}\.\d{3}>/g, '')\<close>: every match, found from the left.\<close>

fun removeTimingTags :: "string \<Rightarrow> string" where
  "removeTimingTags [] = []"
| "removeTimingTags (c # cs) =
     (if matchClasses ((=) CHR ''<'' # timecode @ [(=) CHR ''>'']) (c # cs)
      then removeTimingTags (drop 13 cs)
      else c # removeTimingTags cs)"

text \<open>\<^verbatim>\<open>text.replace(/<\/?[a-z]>/gi, '')\<close>.\<close>

fun removeStyleTags :: "string \<Rightarrow> string" where
  "removeStyleTags [] = []"
| "removeStyleTags (c # cs) =
     (if matchClasses [(=) CHR ''<'', (=) CHR ''/'', isLetter, (=) CHR ''>''] (c # cs)
      then removeStyleTags (drop 3 cs)
      else if matchClasses [(=) CHR ''<'', isLetter, (=) CHR ''>''] (c # cs)
      then removeStyleTags (drop 2 cs)
      else c # removeStyleTags cs)"

text \<open>\<^verbatim>\<open>text.replace(/\s+/g, ' ')\<close>.\<close>

function collapseSpaces :: "string \<Rightarrow> string" where
  "collapseSpaces [] = []"
| "collapseSpaces (c # cs) =
     (if isSpace c then CHR '' '' # collapseSpaces (dropWhile isSpace cs)
      else c # collapseSpaces cs)"
  by pat_completeness auto
termination
  by (relation "measure length") (auto simp: length_dropWhile_le less_Suc_eq_le)

text \<open>Decimal notation of a number, as a template literal prints it.\<close>

function showNat :: "nat \<Rightarrow> string" where
  "showNat n =
     (if n < 10 then [''0123456789'' ! n]
      else showNat (n div 10) @ [''0123456789'' ! (n mod 10)])"
  by pat_completeness auto
termination
  by (relation "measure id") auto

declare showNat.simps [simp del]

definition showInt :: "int \<Rightarrow> string" where
  "showInt i = (if i < 0 then CHR ''-'' # showNat (nat (- i)) else showNat (nat i))"

section \<open>The caption parser (core/parser.js)\<close>

text \<open>The three clean-up steps both VTT parsers apply to a text line.\<close>

definition cleanText :: "string \<Rightarrow> string" where
  "cleanText line = trim (collapseSpaces (removeStyleTags (removeTimingTags line)))"

text \<open>
  \<open>parseVTT\<close>: the loop over the lines, with \<^verbatim>\<open>textLines\<close> and
  \<^verbatim>\<open>previousText\<close> as they stand.
\<close>

fun parseVTTLoop :: "string list \<Rightarrow> string list \<Rightarrow> string \<Rightarrow> string list" where
  "parseVTTLoop [] textLines previousText = textLines"
| "parseVTTLoop (raw # rest) textLines previousText =
     (let line = trim raw in
      if line = [] \<or> startsWith line ''WEBVTT'' \<or> includesStr line ''Kind:''
         \<or> includesStr line ''Language:'' \<or> includesStr line ''-->''
      then parseVTTLoop rest textLines previousText
      else
        (let text = cleanText line in
         if text \<noteq> [] \<and> text \<noteq> previousText
         then parseVTTLoop rest (textLines @ [text]) text
         else parseVTTLoop rest textLines previousText))"

definition parseVTT :: "string \<Rightarrow> string" where
  "parseVTT content = joinWith [LF] (parseVTTLoop (splitOn LF content) [] [])"

text \<open>
  \<open>parseVTTWithTimestamps\<close>. \<open>timestampMatch\<close> is the match of
  \<^verbatim>\<open>/^(\d{2}:\d{2}:\d{2}\.\d{3})\s*-->\s*(\d{2}:\d{2}:\d{2}\.\d{3})/\<close>, giving the two
  groups.
\<close>

record caption =
  c_start :: string
  c_end :: string
  c_text :: string

definition timestampMatch :: "string \<Rightarrow> (string \<times> string) option" where
  "timestampMatch line =
     (if matchClasses timecode line then
        (let r = dropWhile isSpace (drop 12 line) in
         if startsWith r ''-->'' then
           (let r2 = dropWhile isSpace (drop 3 r) in
            if matchClasses timecode r2 then Some (take 12 line, take 12 r2) else None)
         else None)
      else None)"

record vtt_state =
  captions :: "caption list"
  currentCaption :: "caption option"
  previousText :: string

definition vttInit :: vtt_state where
  "vttInit = \<lparr>captions = [], currentCaption = None, previousText = []\<rparr>"

text \<open>One round of the loop, on the line \<open>raw\<close>.\<close>

definition vttStep :: "vtt_state \<Rightarrow> string \<Rightarrow> vtt_state" where
  "vttStep st raw =
     (let line = trim raw in
      if startsWith line ''WEBVTT'' \<or> includesStr line ''Kind:'' \<or> includesStr line ''Language:''
      then st
      else
        (case timestampMatch line of
           Some (s, e) \<Rightarrow>
             (let st' =
                (case currentCaption st of
                   Some c \<Rightarrow>
                     if c_text c \<noteq> [] \<and> c_text c \<noteq> previousText st
                     then st\<lparr>captions := captions st @ [c], previousText := c_text c\<rparr>
                     else st
                 | None \<Rightarrow> st)
              in st'\<lparr>currentCaption := Some \<lparr>c_start = s, c_end = e, c_text = []\<rparr>\<rparr>)
         | None \<Rightarrow>
             (case currentCaption st of
                Some c \<Rightarrow>
                  if line \<noteq> [] then
                    (let text = cleanText line in
                     if text \<noteq> [] then st\<lparr>currentCaption := Some (c\<lparr>c_text := text\<rparr>)\<rparr>
                     else st)
                  else st
              | None \<Rightarrow> st)))"

text \<open>After the loop: the last caption is added under the same condition.\<close>

definition vttFinish :: "vtt_state \<Rightarrow> caption list" where
  "vttFinish st =
     (case currentCaption st of
        Some c \<Rightarrow>
          if c_text c \<noteq> [] \<and> c_text c \<noteq> previousText st then captions st @ [c]
          else captions st
      | None \<Rightarrow> captions st)"

definition parseVTTLines :: "string list \<Rightarrow> caption list" where
  "parseVTTLines lines = vttFinish (foldl vttStep vttInit lines)"

definition parseVTTWithTimestamps :: "string \<Rightarrow> caption list" where
  "parseVTTWithTimestamps content = parseVTTLines (splitOn LF content)"

text \<open>
  The file system as \<open>convertToPlainText\<close> sees it through utils/file.js: the files
  that can be read, with their contents; the message of the error that
  \<^verbatim>\<open>fs.readFile\<close> raises on any other path; and the paths on which \<^verbatim>\<open>fs.writeFile\<close>
  or \<^verbatim>\<open>fs.unlink\<close> fails, with the message of the error raised.
\<close>

record filesystem =
  files :: "string \<rightharpoonup> string"
  readError :: "string \<Rightarrow> string"
  writeError :: "string \<rightharpoonup> string"
  unlinkError :: "string \<rightharpoonup> string"

definition readFile :: "filesystem \<Rightarrow> string \<Rightarrow> js_error + string" where
  "readFile fs filePath =
     (case files fs filePath of
        Some content \<Rightarrow> Inr content
      | None \<Rightarrow>
          Inl (FileOperationError (''Failed to read file: '' @ readError fs filePath)
                 filePath ''read''))"

definition writeFile :: "filesystem \<Rightarrow> string \<Rightarrow> string \<Rightarrow> js_error + filesystem" where
  "writeFile fs filePath content =
     (case writeError fs filePath of
        Some m \<Rightarrow> Inl (FileOperationError (''Failed to write file: '' @ m) filePath ''write'')
      | None \<Rightarrow> Inr (fs\<lparr>files := (files fs)(filePath \<mapsto> content)\<rparr>))"

text \<open>\<open>deleteFile\<close> unlinks the file only if \<open>fileExists\<close> finds it.\<close>

definition fileExists :: "filesystem \<Rightarrow> string \<Rightarrow> bool" where
  "fileExists fs filePath = (files fs filePath \<noteq> None)"

definition deleteFile :: "filesystem \<Rightarrow> string \<Rightarrow> js_error + filesystem" where
  "deleteFile fs filePath =
     (if fileExists fs filePath then
        (case unlinkError fs filePath of
           Some m \<Rightarrow> Inl (FileOperationError (''Failed to delete file: '' @ m) filePath ''unlink'')
         | None \<Rightarrow> Inr (fs\<lparr>files := (files fs)(filePath := None)\<rparr>))
      else Inr fs)"

text \<open>
  \<^verbatim>\<open>subsrt.parse\<close> is a library outside the repository: it is a parameter
  \<open>subsrtParse\<close>, which gives the captions or, as \<open>Inl\<close>, the message of the error it
  throws. A caption of the library may lack its \<^verbatim>\<open>text\<close>.
\<close>

record srt_caption =
  srt_text :: "string option"

text \<open>The loop of the SRT path, with \<^verbatim>\<open>lines\<close> and \<^verbatim>\<open>previousText\<close> as they stand.\<close>

fun srtLoop :: "srt_caption list \<Rightarrow> string list \<Rightarrow> string \<Rightarrow> string list" where
  "srtLoop [] lines previousText' = lines"
| "srtLoop (caption # rest) lines previousText' =
     (case srt_text caption of
        None \<Rightarrow> srtLoop rest lines previousText'
      | Some t \<Rightarrow>
          if t = [] then srtLoop rest lines previousText'
          else
            (let text = trim t in
             if text \<noteq> [] \<and> text \<noteq> previousText'
             then srtLoop rest (lines @ [text]) text
             else srtLoop rest lines previousText'))"

text \<open>
  \<open>convertToPlainText\<close> returns the plain text or the error it throws, and the file
  system it leaves. \<open>plainTextOf\<close> is the part of the \<^verbatim>\<open>try\<close> block that computes
  \<^verbatim>\<open>plainText\<close>; the rest writes and deletes. The \<^verbatim>\<open>catch\<close> passes a
  \<open>ParseError\<close> on and wraps any other error into one.
\<close>

definition plainTextOf ::
  "(string \<Rightarrow> string + srt_caption list) \<Rightarrow> string \<Rightarrow> string \<Rightarrow> js_error + string" where
  "plainTextOf subsrtParse subtitlePath content =
     (if endsWith subtitlePath ''.vtt'' then Inr (parseVTT content)
      else
        (case subsrtParse content of
           Inl m \<Rightarrow> Inl (ParseError (''Failed to parse subtitle file: '' @ m) subtitlePath)
         | Inr caps \<Rightarrow> Inr (joinWith [LF] (srtLoop caps [] []))))"

definition convertTry ::
  "(string \<Rightarrow> string + srt_caption list) \<Rightarrow> filesystem \<Rightarrow> string \<Rightarrow> string \<Rightarrow> bool \<Rightarrow>
   (js_error + string) \<times> filesystem" where
  "convertTry subsrtParse fs subtitlePath outputPath deleteOriginal =
     (case readFile fs subtitlePath of
        Inl e \<Rightarrow> (Inl e, fs)
      | Inr content \<Rightarrow>
          (case plainTextOf subsrtParse subtitlePath content of
             Inl e \<Rightarrow> (Inl e, fs)
           | Inr plainText \<Rightarrow>
               (case writeFile fs outputPath plainText of
                  Inl e \<Rightarrow> (Inl e, fs)
                | Inr fs1 \<Rightarrow>
                    if deleteOriginal then
                      (case deleteFile fs1 subtitlePath of
                         Inl e \<Rightarrow> (Inl e, fs1)
                       | Inr fs2 \<Rightarrow> (Inr plainText, fs2))
                    else (Inr plainText, fs1))))"

definition convertToPlainText ::
  "(string \<Rightarrow> string + srt_caption list) \<Rightarrow> filesystem \<Rightarrow> string \<Rightarrow> string \<Rightarrow> bool \<Rightarrow>
   (js_error + string) \<times> filesystem" where
  "convertToPlainText subsrtParse fs subtitlePath outputPath deleteOriginal =
     (case convertTry subsrtParse fs subtitlePath outputPath deleteOriginal of
        (Inr plainText, fs') \<Rightarrow> (Inr plainText, fs')
      | (Inl (ParseError m p), fs') \<Rightarrow> (Inl (ParseError m p), fs')
      | (Inl e, fs') \<Rightarrow> (Inl (ParseError (''Conversion failed: '' @ message e) subtitlePath), fs'))"

section \<open>Downloading the subtitles of one video (core/downloader.js)\<close>

record video =
  video_id :: string
  title :: string
  url :: string
  upload_date :: "string option"
  uploader :: "string option"
  duration :: "int option"

record download_result =
  r_videoId :: string
  r_title :: string
  r_filesCount :: nat
  r_totalSize :: nat

text \<open>
  An optional string is falsy when it is absent or empty; \<^verbatim>\<open>a || b\<close> on an
  optional string and on an optional number.
\<close>

definition falsyStr :: "string option \<Rightarrow> bool" where
  "falsyStr a = (case a of Some x \<Rightarrow> x = [] | None \<Rightarrow> True)"

definition orElseStr :: "string option \<Rightarrow> string option \<Rightarrow> string option" where
  "orElseStr a b = (if falsyStr a then b else a)"

definition orElseNum :: "int option \<Rightarrow> int option \<Rightarrow> int option" where
  "orElseNum a b = (case a of Some x \<Rightarrow> if x = 0 then b else a | None \<Rightarrow> b)"

text \<open>
  \<open>enrichVideoMetadata\<close> (core/extractor.js), given what \<^verbatim>\<open>getVideoInfo\<close> answers: a
  failure leaves the video as it is.
\<close>

definition enrichVideoMetadata :: "js_error + video \<Rightarrow> video \<Rightarrow> video" where
  "enrichVideoMetadata fullInfo v =
     (case fullInfo of
        Inr info \<Rightarrow>
          v\<lparr>upload_date := orElseStr (upload_date info) (upload_date v),
            uploader := orElseStr (uploader info) (uploader v),
            duration := orElseNum (duration info) (duration v)\<rparr>
      | Inl e \<Rightarrow> v)"

text \<open>
  What the collaborators of one invocation of \<open>downloadVideoSubtitle\<close> answer: the
  metadata fetch, \<^verbatim>\<open>ensureDir\<close> of the temporary directory, the run of the external
  tool, the caption files then found, and the conversion and moving of those files
  (the result of the function, or the error thrown on the way).
\<close>

record world =
  videoInfo :: "js_error + video"
  tempDir :: "js_error option"
  executeYtDlp :: "js_error option"
  findSubtitleFiles :: "js_error + string list"
  convertFiles :: "video \<Rightarrow> string list \<Rightarrow> js_error + download_result"

text \<open>\<^verbatim>\<open>error.message || error.toString()\<close>; an error without message prints as its name.\<close>

fun errorName :: "js_error \<Rightarrow> string" where
  "errorName (DownloadError m v r) = ''DownloadError''"
| "errorName (ParseError m p) = ''ParseError''"
| "errorName (FileOperationError m p operation) = ''FileOperationError''"
| "errorName (Error m) = ''Error''"

definition messageOrToString :: "js_error \<Rightarrow> string" where
  "messageOrToString e = (if message e = [] then errorName e else message e)"

text \<open>The \<^verbatim>\<open>try\<close> block of \<open>downloadVideoSubtitle\<close>, and the function.\<close>

definition downloadTry :: "world \<Rightarrow> video \<Rightarrow> js_error + download_result" where
  "downloadTry w enrichedVideo =
     (case executeYtDlp w of
        Some e \<Rightarrow> Inl e
      | None \<Rightarrow>
          (case findSubtitleFiles w of
             Inl e \<Rightarrow> Inl e
           | Inr subtitleFiles \<Rightarrow>
               if length subtitleFiles = 0
               then Inl (DownloadError ''No subtitles available for this video''
                           (video_id enrichedVideo) False)
               else convertFiles w enrichedVideo subtitleFiles))"

definition downloadVideoSubtitle :: "world \<Rightarrow> video \<Rightarrow> js_error + download_result" where
  "downloadVideoSubtitle w v =
     (let enrichedVideo =
        (if falsyStr (upload_date v) then enrichVideoMetadata (videoInfo w) v else v)
      in
      case tempDir w of
        Some e \<Rightarrow> Inl e
      | None \<Rightarrow>
          (case downloadTry w enrichedVideo of
             Inr r \<Rightarrow> Inr r
           | Inl error \<Rightarrow>
               (let errorMessage = messageOrToString error in
                if includesStr errorMessage ''No subtitles'' \<or> includesStr errorMessage ''not available''
                   \<or> includesStr errorMessage ''private'' \<or> includesStr errorMessage ''deleted''
                then Inl (DownloadError errorMessage (video_id v) False)
                else Inl (DownloadError errorMessage (video_id v) True))))"

text \<open>
  The worker of \<open>downloadSubtitles\<close> wraps the download in \<open>withRetry\<close>, passing
  \<^verbatim>\<open>maxRetries\<close> only; \<open>worlds k\<close> is what the collaborators answer during invocation
  number \<open>k\<close>.
\<close>

definition downloadWithRetry ::
  "(rat \<Rightarrow> nat \<Rightarrow> number) \<Rightarrow> (nat \<Rightarrow> world) \<Rightarrow> video \<Rightarrow> number \<Rightarrow>
   download_result retry_run option" where
  "downloadWithRetry approx worlds v maxR =
     withRetry approx (\<lambda>k. downloadVideoSubtitle (worlds k) v)
       (noOptions\<lparr>maxRetries := Some maxR\<rparr>)"

section \<open>The task queue (lib/queue.js)\<close>

text \<open>
  The entries of the two buckets, and the state of a run: the items still queued in the
  limiter, the items whose worker is in flight, and the buckets. Every item goes with
  its index.
\<close>

record ('a, 'r) success_entry =
  s_item :: 'a
  s_result :: 'r
  s_index :: nat

record 'a failure_entry =
  f_item :: 'a
  f_error :: js_error
  f_index :: nat

record ('a, 'r) queue_state =
  pending :: "('a \<times> nat) list"
  active :: "('a \<times> nat) list"
  q_succeeded :: "('a, 'r) success_entry list"
  q_failed :: "'a failure_entry list"

definition queueInit :: "'a list \<Rightarrow> ('a, 'r) queue_state" where
  "queueInit items =
     \<lparr>pending = zip items [0..<length items], active = [], q_succeeded = [], q_failed = []\<rparr>"

text \<open>The limiter admits the item queued first.\<close>

definition admit :: "('a, 'r) queue_state \<Rightarrow> ('a, 'r) queue_state" where
  "admit q = q\<lparr>pending := tl (pending q), active := active q @ [hd (pending q)]\<rparr>"

text \<open>
  The worker in flight at position \<open>k\<close> settles: the \<^verbatim>\<open>try\<close> pushes its result to
  \<^verbatim>\<open>succeeded\<close>, the \<^verbatim>\<open>catch\<close> pushes the error it threw to \<^verbatim>\<open>failed\<close>.
  \<open>processFn item index\<close> is what the worker does for the item, \<open>Inl\<close> the error thrown.
\<close>

definition settle ::
  "('a \<Rightarrow> nat \<Rightarrow> js_error + 'r) \<Rightarrow> nat \<Rightarrow> ('a, 'r) queue_state \<Rightarrow> ('a, 'r) queue_state" where
  "settle processFn k q =
     (let (item, index) = active q ! k;
          q' = q\<lparr>active := take k (active q) @ drop (Suc k) (active q)\<rparr>
      in case processFn item index of
           Inr result \<Rightarrow>
             q'\<lparr>q_succeeded := q_succeeded q @ [\<lparr>s_item = item, s_result = result, s_index = index\<rparr>]\<rparr>
         | Inl error \<Rightarrow>
             q'\<lparr>q_failed := q_failed q @ [\<lparr>f_item = item, f_error = error, f_index = index\<rparr>]\<rparr>)"

text \<open>
  The run. While an item is queued and fewer than \<open>concurrency\<close> workers are in flight
  the limiter admits; otherwise one of the workers in flight settles. Which one is up to
  the timing of the workers: \<open>pick\<close> chooses it, and the theorems hold for every
  \<open>pick\<close>. The run is over when nothing is queued and nothing is in flight, which is
  when \<^verbatim>\<open>Promise.all\<close> resolves.
\<close>

function drain ::
  "('a \<Rightarrow> nat \<Rightarrow> js_error + 'r) \<Rightarrow> nat \<Rightarrow> (('a, 'r) queue_state \<Rightarrow> nat) \<Rightarrow>
   ('a, 'r) queue_state \<Rightarrow> ('a, 'r) queue_state" where
  "drain processFn concurrency pick q =
     (if pending q \<noteq> [] \<and> length (active q) < concurrency
      then drain processFn concurrency pick (admit q)
      else if active q \<noteq> []
      then drain processFn concurrency pick (settle processFn (pick q mod length (active q)) q)
      else q)"
  by pat_completeness auto
termination
proof (relation "measure (\<lambda>(processFn, concurrency, pick, q).
                   2 * length (pending q) + length (active q))", goal_cases)
  case 1
  show ?case by simp
next
  case (2 processFn concurrency pick q)
  then show ?case by (cases "pending q") (simp_all add: admit_def)
next
  case (3 processFn concurrency pick q)
  then have "pick q mod length (active q) < length (active q)" by simp
  then show ?case
    by (auto simp: settle_def Let_def split: prod.splits sum.splits)
qed

declare drain.simps [simp del]

record ('a, 'r) queue_results =
  succeeded :: "('a, 'r) success_entry list"
  failed :: "'a failure_entry list"

text \<open>
  \<open>processQueue\<close>. The limiter \<^verbatim>\<open>pLimit(concurrency)\<close> of the library p-limit
  refuses a concurrency below 1 with a \<^verbatim>\<open>TypeError\<close>, which \<open>processQueue\<close> does not
  catch.
\<close>

definition processQueue ::
  "'a list \<Rightarrow> ('a \<Rightarrow> nat \<Rightarrow> js_error + 'r) \<Rightarrow> int \<Rightarrow> (('a, 'r) queue_state \<Rightarrow> nat) \<Rightarrow>
   js_error + ('a, 'r) queue_results" where
  "processQueue items processFn concurrency pick =
     (if concurrency < 1
      then Inl (Error ''Expected `concurrency` to be a number from 1 and up'')
      else
        (let q = drain processFn (nat concurrency) pick (queueInit items)
         in Inr \<lparr>succeeded = q_succeeded q, failed = q_failed q\<rparr>))"

section \<open>The terminal styling and the spinners\<close>

text \<open>
  The styling functions of the library chalk are a parameter: \<open>ch styles s\<close> is the
  string \<open>s\<close> styled by the chain \<open>styles\<close>, so \<^verbatim>\<open>chalk.bold.red(s)\<close> is
  \<open>ch [''bold'', ''red''] s\<close>. \<open>plain\<close> is chalk without colour support.
\<close>

type_synonym chalk = "string list \<Rightarrow> string \<Rightarrow> string"

definition plain :: chalk where
  "plain styles s = s"

text \<open>
  The glyphs of the messages lie outside the code units below 256; each stands here as
  the bytes of its UTF-8 encoding.
\<close>

definition checkMark :: string where
  "checkMark = [CHR 0xE2, CHR 0x9C, CHR 0x93]"

definition crossMark :: string where
  "crossMark = [CHR 0xE2, CHR 0x9C, CHR 0x97]"

definition bullet :: string where
  "bullet = [CHR 0xE2, CHR 0x80, CHR 0xA2]"

definition chartIcon :: string where
  "chartIcon = [CHR 0xF0, CHR 0x9F, CHR 0x93, CHR 0x8A]"

definition separator :: string where
  "separator = [CHR 0xE2, CHR 0x95, CHR 0xA0]
     @ concat (replicate 56 [CHR 0xE2, CHR 0x95, CHR 0x90])
     @ [CHR 0xE2, CHR 0x95, CHR 0xA3]"

text \<open>
  A spinner of the library ora, on a terminal: its text, and whether it has not been
  started, spins, was stopped, or was stopped with a final mark.
\<close>

datatype spin = NotStarted | Spinning | Stopped | Succeed | Fail | Warn

record spinner =
  sp_text :: string
  sp_state :: spin

definition ora :: "string \<Rightarrow> spinner" where
  "ora t = \<lparr>sp_text = t, sp_state = NotStarted\<rparr>"

definition isSpinning :: "spinner \<Rightarrow> bool" where
  "isSpinning sp = (sp_state sp = Spinning)"

section \<open>The progress tracker (lib/progress.js)\<close>

record video_entry =
  v_spinner :: spinner
  v_title :: string
  v_status :: string

record progress_stats =
  p_total :: nat
  p_completed :: nat
  p_succeeded :: nat
  p_failed :: nat

text \<open>
  \<^verbatim>\<open>videoSpinners\<close> is a \<^verbatim>\<open>Map\<close>, which keeps its keys in the order of their
  first insertion: an association list, with \<open>mapSet\<close> for \<^verbatim>\<open>set\<close> and
  \<^const>\<open>map_of\<close> for \<^verbatim>\<open>get\<close>.
\<close>

record tracker =
  mainSpinner :: "spinner option"
  videoSpinners :: "(string \<times> video_entry) list"
  stats :: progress_stats

fun mapSet :: "'k \<Rightarrow> 'v \<Rightarrow> ('k \<times> 'v) list \<Rightarrow> ('k \<times> 'v) list" where
  "mapSet k v [] = [(k, v)]"
| "mapSet k v ((k', v') # rest) =
     (if k = k' then (k, v) # rest else (k', v') # mapSet k v rest)"

definition newTracker :: tracker where
  "newTracker = \<lparr>mainSpinner = None, videoSpinners = [],
                 stats = \<lparr>p_total = 0, p_completed = 0, p_succeeded = 0, p_failed = 0\<rparr>\<rparr>"

definition truncateStr :: "string \<Rightarrow> nat \<Rightarrow> string" where
  "truncateStr t maxLength = (if length t \<le> maxLength then t else take (maxLength - 3) t @ ''...'')"

text \<open>
  \<^verbatim>\<open>Math.round((a / b) * 100)\<close> on counts, \<open>b\<close> positive: the quotient and the
  product are rounded to doubles, \<^verbatim>\<open>Math.round\<close> then takes the nearest integer, the
  upper one of two that are equally near.
\<close>

definition percentOf :: "nat \<Rightarrow> nat \<Rightarrow> int" where
  "percentOf a b = \<lfloor>roundRat (roundRat (rat_of_nat a / rat_of_nat b) * 100) + 1 / 2\<rfloor>"

definition getMainSpinnerText :: "chalk \<Rightarrow> tracker \<Rightarrow> string" where
  "getMainSpinnerText ch t =
     (let percentage =
            (if p_total (stats t) > 0 then percentOf (p_completed (stats t)) (p_total (stats t))
             else 0);
          parts = [ch [''bold''] (''Overall Progress: '' @ showInt percentage @ ''%''),
                   ch [''green''] (showNat (p_succeeded (stats t)) @ '' succeeded'')]
                  @ (if p_failed (stats t) > 0
                     then [ch [''red''] (showNat (p_failed (stats t)) @ '' failed'')] else [])
      in joinWith (ch [''dim''] '' | '') parts)"

definition updateMainSpinner :: "chalk \<Rightarrow> tracker \<Rightarrow> tracker" where
  "updateMainSpinner ch t =
     (case mainSpinner t of
        Some sp \<Rightarrow> t\<lparr>mainSpinner := Some (sp\<lparr>sp_text := getMainSpinnerText ch t\<rparr>)\<rparr>
      | None \<Rightarrow> t)"

definition progressStart :: "chalk \<Rightarrow> nat \<Rightarrow> tracker \<Rightarrow> tracker" where
  "progressStart ch totalVideos t =
     (let t1 = t\<lparr>stats := (stats t)\<lparr>p_total := totalVideos\<rparr>\<rparr>
      in t1\<lparr>mainSpinner := Some ((ora (getMainSpinnerText ch t1))\<lparr>sp_state := Spinning\<rparr>)\<rparr>)"

text \<open>\<open>updateDisplay\<close>: the first five entries still processing spin.\<close>

fun updateDisplayLoop :: "(string \<times> video_entry) list \<Rightarrow> nat \<Rightarrow> (string \<times> video_entry) list" where
  "updateDisplayLoop [] activeCount = []"
| "updateDisplayLoop ((videoId, v) # rest) activeCount =
     (if v_status v = ''processing'' \<and> activeCount < 5
      then (videoId,
            if \<not> isSpinning (v_spinner v) then v\<lparr>v_spinner := (v_spinner v)\<lparr>sp_state := Spinning\<rparr>\<rparr>
            else v)
           # updateDisplayLoop rest (activeCount + 1)
      else (videoId, v) # updateDisplayLoop rest activeCount)"

definition updateDisplay :: "tracker \<Rightarrow> tracker" where
  "updateDisplay t = t\<lparr>videoSpinners := updateDisplayLoop (videoSpinners t) 0\<rparr>"

definition startVideo :: "chalk \<Rightarrow> string \<Rightarrow> string \<Rightarrow> tracker \<Rightarrow> tracker" where
  "startVideo ch videoId ttl t =
     (let sp = ora (ch [''dim''] (truncateStr ttl 60))
      in updateDisplay
           (t\<lparr>videoSpinners :=
                mapSet videoId \<lparr>v_spinner = sp, v_title = ttl, v_status = ''processing''\<rparr>
                  (videoSpinners t)\<rparr>))"

text \<open>\<^verbatim>\<open>title || video.title\<close>: an empty title falls back to the stored one.\<close>

definition titleOr :: "string \<Rightarrow> string \<Rightarrow> string" where
  "titleOr ttl stored = (if ttl = [] then stored else ttl)"

definition succeedVideo :: "chalk \<Rightarrow> string \<Rightarrow> string \<Rightarrow> tracker \<Rightarrow> tracker" where
  "succeedVideo ch videoId ttl t =
     (let t1 = t\<lparr>stats := (stats t)\<lparr>p_completed := p_completed (stats t) + 1,
                                    p_succeeded := p_succeeded (stats t) + 1\<rparr>\<rparr>;
          t2 = (case map_of (videoSpinners t1) videoId of
                  Some v \<Rightarrow>
                    t1\<lparr>videoSpinners :=
                         mapSet videoId
                           (v\<lparr>v_status := ''succeeded'',
                              v_spinner := \<lparr>sp_text = ch [''green''] (truncateStr (titleOr ttl (v_title v)) 60),
                                           sp_state = Succeed\<rparr>\<rparr>)
                           (videoSpinners t1)\<rparr>
                | None \<Rightarrow> t1)
      in updateMainSpinner ch t2)"

definition failVideo :: "chalk \<Rightarrow> string \<Rightarrow> string \<Rightarrow> string \<Rightarrow> tracker \<Rightarrow> tracker" where
  "failVideo ch videoId ttl errorMessage t =
     (let t1 = t\<lparr>stats := (stats t)\<lparr>p_completed := p_completed (stats t) + 1,
                                    p_failed := p_failed (stats t) + 1\<rparr>\<rparr>;
          t2 = (case map_of (videoSpinners t1) videoId of
                  Some v \<Rightarrow>
                    (let msg = truncateStr (titleOr ttl (v_title v)) 50 @ '' - ''
                                 @ ch [''red''] errorMessage
                     in t1\<lparr>videoSpinners :=
                              mapSet videoId
                                (v\<lparr>v_status := ''failed'',
                                   v_spinner := \<lparr>sp_text = msg, sp_state = Fail\<rparr>\<rparr>)
                                (videoSpinners t1)\<rparr>)
                | None \<Rightarrow> t1)
      in updateMainSpinner ch t2)"

section \<open>The statistics collector (lib/stats.js)\<close>

text \<open>
  Times are milliseconds as \<^verbatim>\<open>Date.now()\<close> gives them; the current time is the
  parameter \<open>now\<close> of every operation that reads the clock. A quotient is a double,
  given by its rational value.
\<close>

record failure =
  e_videoId :: string
  e_title :: string
  e_error :: string

record stats_collector =
  startTime :: int
  endTime :: "int option"
  videos_total :: nat
  videos_succeeded :: nat
  videos_failed :: nat
  files_count :: nat
  files_totalSize :: nat
  languages :: "string list"
  errors :: "failure list"

definition reset :: "int \<Rightarrow> stats_collector" where
  "reset now =
     \<lparr>startTime = now, endTime = None, videos_total = 0, videos_succeeded = 0,
      videos_failed = 0, files_count = 0, files_totalSize = 0, languages = [], errors = []\<rparr>"

definition statsStart :: "int \<Rightarrow> nat \<Rightarrow> stats_collector \<Rightarrow> stats_collector" where
  "statsStart now totalVideos s = s\<lparr>startTime := now, videos_total := totalVideos\<rparr>"

text \<open>\<^verbatim>\<open>Set.add\<close>: a new member goes last, a member already there stays where it is.\<close>

definition setAdd :: "'a \<Rightarrow> 'a list \<Rightarrow> 'a list" where
  "setAdd x xs = (if x \<in> set xs then xs else xs @ [x])"

text \<open>\<open>langs\<close> is \<open>None\<close> when the argument is not an array.\<close>

definition recordSuccess ::
  "string \<Rightarrow> string \<Rightarrow> nat \<Rightarrow> string list option \<Rightarrow> stats_collector \<Rightarrow> stats_collector" where
  "recordSuccess videoId ttl fileSize langs s =
     (let s1 = s\<lparr>videos_succeeded := videos_succeeded s + 1,
                  files_count := files_count s + 1,
                  files_totalSize := files_totalSize s + fileSize\<rparr>
      in case langs of
           Some ls \<Rightarrow> s1\<lparr>languages := foldl (\<lambda>acc lang. setAdd lang acc) (languages s1) ls\<rparr>
         | None \<Rightarrow> s1)"

definition recordFailure ::
  "string \<Rightarrow> string \<Rightarrow> js_error \<Rightarrow> stats_collector \<Rightarrow> stats_collector" where
  "recordFailure videoId ttl error s =
     s\<lparr>videos_failed := videos_failed s + 1,
       errors := errors s @ [\<lparr>e_videoId = videoId, e_title = ttl, e_error = message error\<rparr>]\<rparr>"

definition statsEnd :: "int \<Rightarrow> stats_collector \<Rightarrow> stats_collector" where
  "statsEnd now s = s\<lparr>endTime := Some now\<rparr>"

definition getElapsedTime :: "int \<Rightarrow> stats_collector \<Rightarrow> int" where
  "getElapsedTime now s =
     (let end = (case endTime s of Some t \<Rightarrow> if t = 0 then now else t | None \<Rightarrow> now)
      in end - startTime s)"

definition getAverageTime :: "int \<Rightarrow> stats_collector \<Rightarrow> rat" where
  "getAverageTime now s =
     (let completed = videos_succeeded s + videos_failed s
      in if completed = 0 then 0
         else roundRat (rat_of_int (getElapsedTime now s) / rat_of_nat completed))"

definition getSuccessRate :: "stats_collector \<Rightarrow> int" where
  "getSuccessRate s =
     (if videos_total s = 0 then 0 else percentOf (videos_succeeded s) (videos_total s))"

text \<open>
  \<open>formatDuration\<close> (utils/file.js), on a finite number of milliseconds; each quotient
  is rounded to a double before \<^verbatim>\<open>Math.floor\<close>. The remainders are taken of positive
  numbers only.
\<close>

definition formatDuration :: "rat \<Rightarrow> string" where
  "formatDuration ms =
     (let seconds = \<lfloor>roundRat (ms / 1000)\<rfloor>;
          minutes = \<lfloor>roundRat (rat_of_int seconds / 60)\<rfloor>;
          hours = \<lfloor>roundRat (rat_of_int minutes / 60)\<rfloor>
      in if hours > 0
         then showInt hours @ ''h '' @ showInt (minutes mod 60) @ ''m '' @ showInt (seconds mod 60) @ ''s''
         else if minutes > 0
         then showInt minutes @ ''m '' @ showInt (seconds mod 60) @ ''s''
         else showInt seconds @ ''s'')"

text \<open>
  \<open>generateReport\<close>. \<open>formatFileSize\<close> (utils/file.js) computes with logarithms of
  floating-point numbers and is a parameter. \<open>summaryLines\<close> are the lines up to the
  closing separator, \<open>failureLines\<close> the error details pushed after it.
\<close>

definition summaryLines :: "chalk \<Rightarrow> (nat \<Rightarrow> string) \<Rightarrow> int \<Rightarrow> stats_collector \<Rightarrow> string list" where
  "summaryLines ch formatFileSize now s =
     (let elapsed = getElapsedTime now s;
          avgTime = getAverageTime now s;
          successRate = getSuccessRate s
      in [[],
          ch [''bold''] separator,
          ch [''bold'', ''cyan''] (chartIcon @ '' DOWNLOAD SUMMARY''),
          ch [''bold''] separator,
          ''Total Videos: '' @ ch [''bold''] (showNat (videos_total s)),
          ch [''green''] checkMark @ '' Succeeded: ''
            @ ch [''bold'', ''green''] (showNat (videos_succeeded s))]
         @ (if videos_failed s > 0
            then [ch [''red''] crossMark @ '' Failed: ''
                    @ ch [''bold'', ''red''] (showNat (videos_failed s))]
            else [])
         @ [''Success Rate: '' @ ch [''bold''] (showInt successRate @ ''%''),
            ''Total Time: '' @ ch [''bold''] (formatDuration (rat_of_int elapsed)),
            ''Avg Time/Video: '' @ ch [''bold''] (formatDuration avgTime)]
         @ (if files_totalSize s > 0
            then [''Total Size: '' @ ch [''bold''] (formatFileSize (files_totalSize s))]
            else [])
         @ (if length (languages s) > 0
            then [''Languages: '' @ ch [''bold''] (joinWith '', '' (languages s))]
            else [])
         @ [ch [''bold''] separator])"

definition failureLines :: "chalk \<Rightarrow> stats_collector \<Rightarrow> string list" where
  "failureLines ch s =
     (if length (errors s) > 0 \<and> length (errors s) \<le> 5
      then [[], ch [''bold'', ''red''] ''Failed Videos:'']
           @ map (\<lambda>e. ch [''red''] (''  '' @ bullet @ '' '' @ e_title e @ '': '' @ e_error e))
               (errors s)
      else if length (errors s) > 5
      then [[], ch [''red''] (showNat (length (errors s))
                               @ '' videos failed (use --verbose for details)'')]
      else [])"

definition generateReport :: "chalk \<Rightarrow> (nat \<Rightarrow> string) \<Rightarrow> int \<Rightarrow> stats_collector \<Rightarrow> string" where
  "generateReport ch formatFileSize now s =
     joinWith [LF] (summaryLines ch formatFileSize now s @ failureLines ch s)"

text \<open>A line that is empty or does not begin with a space: not an itemized failure.\<close>

definition notIndented :: "string \<Rightarrow> bool" where
  "notIndented l = (l = [] \<or> hd l \<noteq> CHR '' '')"

text \<open>\<open>getStats\<close>: a copy of the counters and of the whole list of failures.\<close>

record stats_snapshot =
  g_videos :: "nat \<times> nat \<times> nat"
  g_files :: "nat \<times> nat"
  g_languages :: "string list"
  g_elapsed :: int
  g_averageTime :: rat
  g_successRate :: int
  g_errors :: "failure list"

definition getStats :: "int \<Rightarrow> stats_collector \<Rightarrow> stats_snapshot" where
  "getStats now s =
     \<lparr>g_videos = (videos_total s, videos_succeeded s, videos_failed s),
      g_files = (files_count s, files_totalSize s),
      g_languages = languages s,
      g_elapsed = getElapsedTime now s,
      g_averageTime = getAverageTime now s,
      g_successRate = getSuccessRate s,
      g_errors = errors s\<rparr>"

section \<open>Notions in which the properties are stated\<close>

subsection \<open>The task queue\<close>

text \<open>
  An entry of a bucket stands for the submitted item with its index. \<open>accounted\<close>
  collects the items of a state wherever they are; a state is \<open>faithful\<close> when every
  entry of a bucket records what the worker did for its item.
\<close>

definition successKey :: "('a, 'r) success_entry \<Rightarrow> 'a \<times> nat" where
  "successKey e = (s_item e, s_index e)"

definition failureKey :: "'a failure_entry \<Rightarrow> 'a \<times> nat" where
  "failureKey e = (f_item e, f_index e)"

definition accounted :: "('a, 'r) queue_state \<Rightarrow> ('a \<times> nat) multiset" where
  "accounted q = mset (pending q) + mset (active q)
                 + mset (map successKey (q_succeeded q)) + mset (map failureKey (q_failed q))"

definition faithful :: "('a \<Rightarrow> nat \<Rightarrow> js_error + 'r) \<Rightarrow> ('a, 'r) queue_state \<Rightarrow> bool" where
  "faithful processFn q =
     ((\<forall>e \<in> set (q_succeeded q). processFn (s_item e) (s_index e) = Inr (s_result e))
      \<and> (\<forall>e \<in> set (q_failed q). processFn (f_item e) (f_index e) = Inl (f_error e)))"

subsection \<open>The caption parser\<close>

text \<open>
  The text lines of a VTT document as \<open>parseVTT\<close> sees them: trimmed, without the
  lines it skips, cleaned, without the empty ones. Likewise the texts of the captions
  of the SRT path.
\<close>

definition vttTextLines :: "string list \<Rightarrow> string list" where
  "vttTextLines ls =
     filter (\<lambda>t. t \<noteq> [])
       (map cleanText
          (filter (\<lambda>line. \<not> (line = [] \<or> startsWith line ''WEBVTT'' \<or> includesStr line ''Kind:''
                              \<or> includesStr line ''Language:'' \<or> includesStr line ''-->''))
             (map trim ls)))"

definition srtTexts :: "srt_caption list \<Rightarrow> string list" where
  "srtTexts caps =
     filter (\<lambda>t. t \<noteq> [])
       (map trim (concat (map (\<lambda>c. case srt_text c of None \<Rightarrow> [] | Some t \<Rightarrow> [t]) caps)))"

text \<open>
  The plain text as the specification words it: the texts of the cues, a cue dropped
  when its text equals that of the cue retained before it, joined by single newlines.
\<close>

definition specPlainText :: "string list \<Rightarrow> string" where
  "specPlainText cueTexts = joinWith [LF] (remdups_adj cueTexts)"

text \<open>
  For \<open>parseVTTWithTimestamps\<close>: a header line is skipped wherever it stands; a range
  line is a line that is not skipped and on which the time-range pattern matches. A
  block is a range line with the lines that follow it up to the next range line; its
  caption has the two timecodes of the range line and, as text, the last non-empty
  cleaned line of the block. \<open>retained\<close> keeps a caption when its text is not empty and
  differs from the text of the caption kept before it.
\<close>

definition headerLine :: "string \<Rightarrow> bool" where
  "headerLine line =
     (startsWith line ''WEBVTT'' \<or> includesStr line ''Kind:'' \<or> includesStr line ''Language:'')"

definition rangeLine :: "string \<Rightarrow> bool" where
  "rangeLine raw = (\<not> headerLine (trim raw) \<and> timestampMatch (trim raw) \<noteq> None)"

definition cleanedLines :: "string list \<Rightarrow> string list" where
  "cleanedLines body =
     filter (\<lambda>t. t \<noteq> [])
       (map (\<lambda>raw. cleanText (trim raw)) (filter (\<lambda>raw. \<not> headerLine (trim raw)) body))"

definition lastText :: "string list \<Rightarrow> string" where
  "lastText body = (if cleanedLines body = [] then [] else last (cleanedLines body))"

definition blockLines :: "string \<times> string list \<Rightarrow> string list" where
  "blockLines b = fst b # snd b"

definition blockCaption :: "string \<times> string list \<Rightarrow> caption" where
  "blockCaption b =
     (case timestampMatch (trim (fst b)) of
        Some (s, e) \<Rightarrow> \<lparr>c_start = s, c_end = e, c_text = lastText (snd b)\<rparr>
      | None \<Rightarrow> \<lparr>c_start = [], c_end = [], c_text = []\<rparr>)"

definition cueBlock :: "string \<times> string list \<Rightarrow> bool" where
  "cueBlock b = (rangeLine (fst b) \<and> list_all (\<lambda>raw. \<not> rangeLine raw) (snd b))"

fun retained :: "string \<Rightarrow> caption list \<Rightarrow> caption list" where
  "retained prev [] = []"
| "retained prev (c # cs) =
     (if c_text c \<noteq> [] \<and> c_text c \<noteq> prev then c # retained (c_text c) cs
      else retained prev cs)"

definition textAfter :: "string \<Rightarrow> string list \<Rightarrow> string" where
  "textAfter t body = (if cleanedLines body = [] then t else last (cleanedLines body))"

definition pushCurrent :: "vtt_state \<Rightarrow> vtt_state" where
  "pushCurrent st =
     (case currentCaption st of
        Some c \<Rightarrow>
          if c_text c \<noteq> [] \<and> c_text c \<noteq> previousText st
          then st\<lparr>captions := captions st @ [c], previousText := c_text c\<rparr>
          else st
      | None \<Rightarrow> st)"

definition waiting :: "vtt_state \<Rightarrow> caption list" where
  "waiting st = (case currentCaption st of None \<Rightarrow> [] | Some c \<Rightarrow> [c])"

section \<open>The error classifier\<close>

text \<open>
  C2, as the code has it. The classifier tries the non-retryable message patterns before
  it looks at the flag of a \<open>DownloadError\<close>. So an explicit flag \<open>False\<close> always
  decides (the result is \<open>False\<close> whatever the message says, and the retryable patterns
  are never consulted), while an explicit flag \<open>True\<close> decides only when the message
  matches no non-retryable pattern.
\<close>

theorem isRetryableError_DownloadError:
  "isRetryableError (DownloadError m v False) = False \<and>
   isRetryableError (DownloadError m v True)
     = (\<not> list_ex (\<lambda>pattern. regexTest pattern m) nonRetryablePatterns)"
  by simp

text \<open>
  C2 as the claim states it fails: an error flagged retryable whose message matches the
  non-retryable pattern \<^verbatim>\<open>/404/i\<close> is classified non-retryable, against its flag.
\<close>

theorem isRetryableError_flag_counterexample:
  "isRetryableError (DownloadError ''HTTP Error 404: Not Found'' ''dQw4w9WgXcQ'' True) \<noteq> True"
  by code_simp

section \<open>Double-precision arithmetic on integers\<close>

lemma roundHalfEven_of_int: "roundHalfEven (of_int j) = j"
  by (simp add: roundHalfEven_def)

lemma floorLog2_of_int_le:
  assumes "0 < m" and "m < 2 ^ 53"
  shows "floorLog2 (of_int m) \<le> 52"
proof -
  from assms have "bitlen m \<le> 53" by (simp add: bitlen_le_iff_power)
  moreover have "bitlen 1 = 1" by (simp add: bitlen_alt_def)
  ultimately show ?thesis by (simp add: floorLog2_def Let_def)
qed

lemma roundRat_pos_int:
  assumes "0 < m" and "m < 2 ^ 53"
  shows "roundRat (of_int m) = of_int m"
proof -
  define e where "e = max (floorLog2 (of_int m)) (- 1022)"
  from floorLog2_of_int_le [OF assms] have e: "e \<le> 52" by (simp add: e_def)
  define k where "k = nat (52 - e)"
  from e have ulp: "pow2 (e - 52) = 1 / 2 ^ k"
    by (cases "e = 52") (simp_all add: pow2_def k_def)
  have q: "rat_of_int m / (1 / 2 ^ k) = of_int (m * 2 ^ k)" by simp
  have "of_int (roundHalfEven (rat_of_int m / (1 / 2 ^ k))) * (1 / 2 ^ k) = rat_of_int m"
    unfolding q roundHalfEven_of_int by simp
  with assms(1) ulp show ?thesis
    by (simp add: roundRat_def Let_def e_def [symmetric])
qed

lemma roundRat_int:
  assumes "\<bar>n\<bar> < 2 ^ 53"
  shows "roundRat (of_int n) = of_int n"
proof (cases "n = 0")
  case True
  then show ?thesis by (simp add: roundRat_def)
next
  case False
  show ?thesis
  proof (cases "0 < n")
    case True
    with assms show ?thesis by (intro roundRat_pos_int) simp_all
  next
    case neg: False
    with False have p: "0 < - n" by simp
    with assms have "roundRat (of_int (- n)) = of_int (- n)" by (intro roundRat_pos_int) simp_all
    moreover have "roundRat (- x) = - roundRat x" for x
      by (simp add: roundRat_def Let_def)
    ultimately show ?thesis by simp
  qed
qed

lemma roundD_int:
  assumes "\<bar>n\<bar> < 2 ^ 53"
  shows "roundD (of_int n) = Num (of_int n)"
proof -
  have "(2::int) ^ 53 \<le> 2 ^ 1024" by (rule power_increasing) simp_all
  with assms have "\<bar>n\<bar> < 2 ^ 1024" by linarith
  then have "\<bar>rat_of_int n\<bar> < 2 ^ 1024"
    by (metis of_int_abs of_int_less_numeral_power_cancel_iff)
  then have "\<not> pow2 1024 \<le> rat_of_int n" "\<not> rat_of_int n \<le> - pow2 1024"
    by (simp_all add: pow2_def abs_less_iff)
  with roundRat_int [OF assms] show ?thesis by (simp add: roundD_def Let_def)
qed

lemma mathPow_int:
  assumes "\<bar>f ^ k\<bar> < 2 ^ 53"
  shows "mathPow approx (Num (of_int f)) k = Num (of_int (f ^ k))"
proof (cases "k = 0")
  case True
  then show ?thesis by (simp add: mathPow_def)
next
  case False
  have r: "roundD (rat_of_int f ^ k) = Num (rat_of_int f ^ k)"
    using roundD_int [OF assms] by simp
  show ?thesis
  proof (cases "f = 0")
    case True
    with False show ?thesis by (simp add: mathPow_def)
  next
    case nz: False
    with False r show ?thesis by (simp add: mathPow_def)
  qed
qed

lemma exact_delay:
  assumes "\<bar>f ^ k\<bar> < 2 ^ 53" and "\<bar>b * f ^ k\<bar> < 2 ^ 53"
  shows "jsMin (jsMul (Num (of_int b)) (mathPow approx (Num (of_int f)) k)) (Num (of_int m))
           = Num (of_int (min (b * f ^ k) m))"
proof -
  have "jsMul (Num (of_int b)) (mathPow approx (Num (of_int f)) k) = Num (of_int (b * f ^ k))"
    using roundD_int [OF assms(2)] by (simp add: mathPow_int [OF assms(1)])
  then have "jsMin (jsMul (Num (of_int b)) (mathPow approx (Num (of_int f)) k)) (Num (of_int m))
      = Num (min (of_int (b * f ^ k)) (of_int m))"
    by (simp only: jsMin.simps)
  also have "min (rat_of_int (b * f ^ k)) (of_int m) = of_int (min (b * f ^ k) m)"
    by (rule of_int_min [symmetric])
  finally show ?thesis .
qed

lemma bitlen_numeral_steps:
  "bitlen 1 = 1"
  "bitlen (numeral (Num.Bit0 k)) = bitlen (numeral k) + 1"
  "bitlen (numeral (Num.Bit1 k)) = bitlen (numeral k) + 1"
proof -
  show "bitlen 1 = 1" by (simp add: bitlen_alt_def)
  have "bitlen (numeral (Num.Bit0 k)) = bitlen (numeral (Num.Bit0 k) div 2) + 1"
    by (subst compute_bitlen) simp
  then show "bitlen (numeral (Num.Bit0 k)) = bitlen (numeral k) + 1" by simp
  have "bitlen (numeral (Num.Bit1 k)) = bitlen (numeral (Num.Bit1 k) div 2) + 1"
    by (subst compute_bitlen) simp
  then show "bitlen (numeral (Num.Bit1 k)) = bitlen (numeral k) + 1" by simp
qed

lemma floor_numeral_div: "\<lfloor>numeral a / numeral b :: rat\<rfloor> = numeral a div numeral b"
  using floor_divide_of_int_eq [of "numeral a" "numeral b", where ?'a = rat] by simp

lemmas rounding =
  roundD_def roundRat_def floorLog2_def roundHalfEven_def pow2_def Let_def
  bitlen_numeral_steps floor_numeral_div

lemma roundD_3B: "roundD 27021597764222973 = Num 27021597764222972"
  by (simp add: rounding)

lemma roundD_9B: "roundD 81064793292668919 = Num 81064793292668912"
  by (simp add: rounding)

section \<open>The retry loop\<close>

lemma retryLoop_delays:
  assumes "retryLoop approx fn maxR base maxD factor attempt lastError k ds = Some run"
    and "ds = map (\<lambda>i. jsMin (jsMul base (mathPow approx factor i)) maxD) [0..<attempt]"
  shows "delays run
     = map (\<lambda>i. jsMin (jsMul base (mathPow approx factor i)) maxD) [0..<length (delays run)]"
proof -
  have "ds = map (\<lambda>i. jsMin (jsMul base (mathPow approx factor i)) maxD) [0..<attempt] \<longrightarrow>
    delays run
     = map (\<lambda>i. jsMin (jsMul base (mathPow approx factor i)) maxD) [0..<length (delays run)]"
  proof (rule retryLoop.raw_induct [OF _ assms(1), where P =
      "\<lambda>approx fn maxR base maxD factor attempt lastError k ds run.
         ds = map (\<lambda>i. jsMin (jsMul base (mathPow approx factor i)) maxD) [0..<attempt] \<longrightarrow>
         delays run
          = map (\<lambda>i. jsMin (jsMul base (mathPow approx factor i)) maxD) [0..<length (delays run)]"],
      goal_cases)
    case (1 loop approx fn maxR base maxD factor attempt lastError k ds run)
    let ?D = "\<lambda>i. jsMin (jsMul base (mathPow approx factor i)) maxD"
    show ?case
    proof (intro impI)
      assume inv: "ds = map ?D [0..<attempt]"
      then have len: "length ds = attempt" by simp
      show "delays run = map ?D [0..<length (delays run)]"
      proof (cases "jsLe (Num (of_nat attempt)) maxR")
        case False
        with "1"(2) have "delays run = ds" by auto
        with inv len show ?thesis by simp
      next
        case le: True
        show ?thesis
        proof (cases "fn k")
          case (Inr r)
          with le "1"(2) have "delays run = ds" by auto
          with inv len show ?thesis by simp
        next
          case (Inl e)
          show ?thesis
          proof (cases "\<not> isRetryableError e \<or> jsGt (Num (of_nat (Suc attempt))) maxR")
            case True
            with le Inl "1"(2) have "delays run = ds"
              by (auto simp del: isRetryableError.simps of_nat_Suc split: if_splits)
            with inv len show ?thesis by simp
          next
            case False
            with le Inl "1"(2) have rec:
              "loop approx fn maxR base maxD factor (Suc attempt) (Some e) (Suc k)
                 (ds @ [?D attempt]) = Some run"
              by (simp del: isRetryableError.simps of_nat_Suc add: Let_def)
            have "ds @ [?D attempt] = map ?D [0..<Suc attempt]"
              using inv by simp
            with "1"(1) [OF rec] show ?thesis by blast
          qed
        qed
      qed
    qed
  qed
  with assms(2) show ?thesis by blast
qed

lemma retryLoop_delays_length:
  assumes "retryLoop approx fn (Num r) base maxD factor attempt lastError k ds = Some run"
    and "length ds = attempt"
  shows "rat_of_nat (length (delays run)) \<le> max (of_nat attempt) r"
proof -
  have "Num r = Num r \<and> length ds = attempt \<longrightarrow>
    rat_of_nat (length (delays run)) \<le> max (of_nat attempt) r"
  proof (rule retryLoop.raw_induct [OF _ assms(1), where P =
      "\<lambda>approx fn maxR base maxD factor attempt lastError k ds run.
         maxR = Num r \<and> length ds = attempt \<longrightarrow>
         rat_of_nat (length (delays run)) \<le> max (of_nat attempt) r"],
      goal_cases)
    case (1 loop approx fn maxR base maxD factor attempt lastError k ds run)
    show ?case
    proof (intro impI, elim conjE)
      assume maxR: "maxR = Num r" and len: "length ds = attempt"
      show "rat_of_nat (length (delays run)) \<le> max (of_nat attempt) r"
      proof (cases "jsLe (Num (of_nat attempt)) maxR")
        case False
        with "1"(2) have "delays run = ds" by auto
        with len show ?thesis by simp
      next
        case le: True
        show ?thesis
        proof (cases "fn k")
          case (Inr x)
          with le "1"(2) have "delays run = ds" by auto
          with len show ?thesis by simp
        next
          case (Inl e)
          show ?thesis
          proof (cases "\<not> isRetryableError e \<or> jsGt (Num (of_nat (Suc attempt))) maxR")
            case True
            with le Inl "1"(2) have "delays run = ds"
              by (auto simp del: isRetryableError.simps of_nat_Suc split: if_splits)
            with len show ?thesis by simp
          next
            case False
            with le Inl "1"(2) have rec:
              "loop approx fn maxR base maxD factor (Suc attempt) (Some e) (Suc k)
                 (ds @ [jsMin (jsMul base (mathPow approx factor attempt)) maxD]) = Some run"
              by (simp del: isRetryableError.simps of_nat_Suc add: Let_def)
            from False maxR have "rat_of_nat (Suc attempt) \<le> r" by (simp del: of_nat_Suc)
            moreover have "rat_of_nat (length (delays run)) \<le> max (of_nat (Suc attempt)) r"
              using "1"(1) [OF rec] maxR len by simp
            ultimately show ?thesis by (simp del: of_nat_Suc add: max_def split: if_splits)
          qed
        qed
      qed
    qed
  qed
  with assms(2) show ?thesis by simp
qed

lemma retryLoop_returns:
  assumes "maxR \<noteq> PosInfinity"
  shows "\<exists>run. retryLoop approx fn maxR base maxD factor attempt lastError k ds = Some run"
proof (cases maxR)
  case (Num r)
  have "\<exists>run. retryLoop approx fn (Num r) base maxD factor attempt lastError k ds = Some run"
  proof (induction "nat (\<lfloor>r\<rfloor> + 1) - attempt" arbitrary: attempt lastError k ds)
    case 0
    show ?case
    proof (cases "rat_of_nat attempt \<le> r")
      case False
      then show ?thesis by (subst retryLoop.simps) simp
    next
      case True
      then have "int attempt \<le> \<lfloor>r\<rfloor>" by (simp add: le_floor_iff)
      with 0 show ?thesis by linarith
    qed
  next
    case (Suc m)
    show ?case
    proof (cases "jsLe (Num (of_nat attempt)) (Num r)")
      case False
      then show ?thesis by (subst retryLoop.simps) simp
    next
      case le: True
      show ?thesis
      proof (cases "fn k")
        case (Inr x)
        with le show ?thesis by (subst retryLoop.simps) simp
      next
        case (Inl e)
        show ?thesis
        proof (cases "\<not> isRetryableError e \<or> jsGt (Num (of_nat (Suc attempt))) (Num r)")
          case True
          with le Inl show ?thesis
            by (subst retryLoop.simps) (auto simp del: isRetryableError.simps of_nat_Suc)
        next
          case False
          from Suc.hyps(2) have "m = nat (\<lfloor>r\<rfloor> + 1) - Suc attempt" by simp
          from Suc.hyps(1) [OF this] obtain run where
            "retryLoop approx fn (Num r) base maxD factor (Suc attempt) (Some e) (Suc k)
               (ds @ [jsMin (jsMul base (mathPow approx factor attempt)) maxD]) = Some run"
            by blast
          with le Inl False show ?thesis
            by (subst retryLoop.simps) (simp del: isRetryableError.simps of_nat_Suc add: Let_def)
        qed
      qed
    qed
  qed
  with Num show ?thesis by simp
next
  case PosInfinity
  with assms show ?thesis by simp
next
  case NegInfinity
  then show ?thesis by (subst retryLoop.simps) simp
next
  case NaN
  then show ?thesis by (subst retryLoop.simps) simp
qed

lemma retryLoop_first_non_retryable:
  "jsLe (Num 0) maxR \<Longrightarrow> fn 0 = Inl e \<Longrightarrow> \<not> isRetryableError e \<Longrightarrow>
   retryLoop approx fn maxR base maxD factor 0 None 0 []
     = Some \<lparr>outcome = Threw e, calls = 1, delays = []\<rparr>"
  by (subst retryLoop.simps) (simp del: isRetryableError.simps)

lemma retryLoop_always_failing:
  assumes "isRetryableError e" and "attempt \<le> N"
  shows "retryLoop approx (\<lambda>k. Inl e) (Num (of_nat N)) base maxD factor attempt lastError k ds
     = Some \<lparr>outcome = Threw e, calls = k + (N - attempt) + 1,
             delays = ds @ map (\<lambda>i. jsMin (jsMul base (mathPow approx factor i)) maxD)
                             [attempt..<N]\<rparr>"
  using assms(2)
proof (induction "N - attempt" arbitrary: attempt lastError k ds)
  case 0
  then have "attempt = N" by simp
  with assms(1) show ?case
    by (subst retryLoop.simps) (simp del: isRetryableError.simps add: Let_def)
next
  case (Suc m)
  then have lt: "attempt < N" by simp
  from Suc.hyps(2) have m: "m = N - Suc attempt" by simp
  from lt have le: "Suc attempt \<le> N" by simp
  have up: "[attempt..<N] = attempt # [Suc attempt..<N]"
    using lt by (simp add: upt_conv_Cons)
  from lt have "retryLoop approx (\<lambda>k. Inl e) (Num (of_nat N)) base maxD factor attempt lastError k ds
      = retryLoop approx (\<lambda>k. Inl e) (Num (of_nat N)) base maxD factor (Suc attempt) (Some e)
          (Suc k) (ds @ [jsMin (jsMul base (mathPow approx factor attempt)) maxD])"
    using assms(1)
    by (subst retryLoop.simps) (simp del: isRetryableError.simps of_nat_Suc add: Let_def)
  also note Suc.hyps(1) [OF m le]
  finally show ?case using lt by (simp add: up)
qed

text \<open>
  C3. When the first invocation of the operation throws an error that the classifier
  calls non-retryable, \<open>withRetry\<close> throws that same error after exactly one invocation
  and without having slept. The first invocation takes place when the loop is entered,
  that is when \<^verbatim>\<open>0 <= maxRetries\<close>.
\<close>

theorem withRetry_non_retryable_once:
  assumes "jsLe (Num 0) (orDefault (maxRetries options) (DEFAULT_MAX_RETRIES CONFIG))"
    and "fn 0 = Inl e" and "\<not> isRetryableError e"
  shows "withRetry approx fn options = Some \<lparr>outcome = Threw e, calls = 1, delays = []\<rparr>"
  using assms unfolding withRetry_def by (intro retryLoop_first_non_retryable)

theorem withRetry_non_retryable_once_witness:
  "jsLe (Num 0) (orDefault (maxRetries noOptions) (DEFAULT_MAX_RETRIES CONFIG))
   \<and> \<not> isRetryableError (Error ''404'')
   \<and> withRetry (\<lambda>r k. NaN) (\<lambda>k. if k = 0 then Inl (Error ''404'') else Inr k) noOptions
       = Some \<lparr>outcome = Threw (Error ''404''), calls = 1, delays = []\<rparr>"
proof -
  have a: "jsLe (Num 0) (orDefault (maxRetries noOptions) (DEFAULT_MAX_RETRIES CONFIG))"
    by (simp add: noOptions_def CONFIG_def orDefault_def)
  have b: "\<not> isRetryableError (Error ''404'')" by code_simp
  show ?thesis
    using a b withRetry_non_retryable_once [OF a _ b, where fn = "\<lambda>k. if k = 0 then Inl (Error ''404'') else Inr k"]
    by simp
qed

text \<open>
  C4, as the code has it. The delays are computed in double-precision arithmetic: for
  every operation and all options, the delay slept before retry number \<open>n\<close> (counted
  from 1) is the smaller of \<^verbatim>\<open>maxDelay\<close> and the rounded product of
  \<^verbatim>\<open>baseDelay\<close> and \<^verbatim>\<open>Math.pow(backoffFactor, n - 1)\<close>. When the three
  options are integers and both \<open>backoffFactor ^ (n - 1)\<close> and
  \<open>baseDelay * backoffFactor ^ (n - 1)\<close> are below \<open>2 ^ 53\<close> in absolute value, that delay
  is exactly \<open>min (baseDelay * backoffFactor ^ (n - 1)) maxDelay\<close>. With the default
  options the delays slept are an initial part of 1000, 2000, 4000, and an operation that
  keeps failing with a retryable error sleeps all three. The call returns whenever
  \<^verbatim>\<open>maxRetries\<close> is not \<^verbatim>\<open>Infinity\<close>.
\<close>

theorem withRetry_backoff_delays:
  fixes fn :: "nat \<Rightarrow> js_error + 'r"
  shows
   "(withRetry approx fn options = Some run \<longrightarrow>
       delays run
         = map (\<lambda>i. jsMin
                       (jsMul (case baseDelay options of None \<Rightarrow> Num 1000 | Some x \<Rightarrow> x)
                          (mathPow approx
                             (case backoffFactor options of None \<Rightarrow> Num 2 | Some x \<Rightarrow> x) i))
                       (case maxDelay options of None \<Rightarrow> Num 30000 | Some x \<Rightarrow> x))
             [0..<length (delays run)])
    \<and> (withRetry approx fn
          \<lparr>maxRetries = mr, baseDelay = Some (Num (of_int b)), maxDelay = Some (Num (of_int m)),
           backoffFactor = Some (Num (of_int f))\<rparr> = Some run
        \<and> 1 \<le> n \<and> n \<le> length (delays run)
        \<and> \<bar>f ^ (n - 1)\<bar> < 2 ^ 53 \<and> \<bar>b * f ^ (n - 1)\<bar> < 2 ^ 53 \<longrightarrow>
          delays run ! (n - 1) = Num (of_int (min (b * f ^ (n - 1)) m)))
    \<and> (\<exists>run. withRetry approx fn noOptions = Some run
           \<and> delays run = take (length (delays run)) [Num 1000, Num 2000, Num 4000])
    \<and> withRetry approx (\<lambda>k. Inl (Error ''ETIMEDOUT'') :: js_error + 'r) noOptions
          = Some \<lparr>outcome = Threw (Error ''ETIMEDOUT''), calls = 4,
                  delays = [Num 1000, Num 2000, Num 4000]\<rparr>
    \<and> (maxRetries options \<noteq> Some PosInfinity \<longrightarrow>
          (\<exists>run. withRetry approx fn options = Some run))"
proof (intro conjI impI)
  let ?B = "case baseDelay options of None \<Rightarrow> Num 1000 | Some x \<Rightarrow> x"
  let ?F = "case backoffFactor options of None \<Rightarrow> Num 2 | Some x \<Rightarrow> x"
  let ?M = "case maxDelay options of None \<Rightarrow> Num 30000 | Some x \<Rightarrow> x"
  assume "withRetry approx fn options = Some run"
  then have "retryLoop approx fn (orDefault (maxRetries options) (DEFAULT_MAX_RETRIES CONFIG))
      ?B ?M ?F 0 None 0 [] = Some run"
    by (simp add: withRetry_def orDefault_def CONFIG_def)
  from retryLoop_delays [OF this]
  show "delays run = map (\<lambda>i. jsMin (jsMul ?B (mathPow approx ?F i)) ?M) [0..<length (delays run)]"
    by simp
next
  assume a: "withRetry approx fn
          \<lparr>maxRetries = mr, baseDelay = Some (Num (of_int b)), maxDelay = Some (Num (of_int m)),
           backoffFactor = Some (Num (of_int f))\<rparr> = Some run
        \<and> 1 \<le> n \<and> n \<le> length (delays run)
        \<and> \<bar>f ^ (n - 1)\<bar> < 2 ^ 53 \<and> \<bar>b * f ^ (n - 1)\<bar> < 2 ^ 53"
  then have "retryLoop approx fn (orDefault mr (DEFAULT_MAX_RETRIES CONFIG))
      (Num (of_int b)) (Num (of_int m)) (Num (of_int f)) 0 None 0 [] = Some run"
    by (simp add: withRetry_def orDefault_def)
  from retryLoop_delays [OF this]
  have d: "delays run
      = map (\<lambda>i. jsMin (jsMul (Num (of_int b)) (mathPow approx (Num (of_int f)) i)) (Num (of_int m)))
          [0..<length (delays run)]"
    by simp
  from a have n: "n - 1 < length (delays run)" by arith
  have "delays run ! (n - 1)
      = jsMin (jsMul (Num (of_int b)) (mathPow approx (Num (of_int f)) (n - 1))) (Num (of_int m))"
    by (subst d) (simp only: nth_map_upt [of "n - 1" "length (delays run)" 0] n length_map
        diff_zero length_upt add_0)
  also from a have "\<dots> = Num (of_int (min (b * f ^ (n - 1)) m))"
    by (intro exact_delay) simp_all
  finally show "delays run ! (n - 1) = Num (of_int (min (b * f ^ (n - 1)) m))" .
next
  have ret: "\<exists>run. withRetry approx fn noOptions = Some run"
    unfolding withRetry_def
    by (rule retryLoop_returns) (simp add: noOptions_def orDefault_def CONFIG_def)
  then obtain run where run: "withRetry approx fn noOptions = Some run" by blast
  then have loop: "retryLoop approx fn (Num 3) (Num 1000) (Num 30000) (Num 2) 0 None 0 [] = Some run"
    by (simp add: withRetry_def noOptions_def orDefault_def CONFIG_def)
  from retryLoop_delays_length [OF loop] have len: "length (delays run) \<le> 3"
    by simp
  from retryLoop_delays [OF loop]
  have d: "delays run
      = map (\<lambda>i. jsMin (jsMul (Num 1000) (mathPow approx (Num 2) i)) (Num 30000))
          [0..<length (delays run)]"
    by simp
  have e0: "jsMin (jsMul (Num 1000) (mathPow approx (Num 2) 0)) (Num 30000) = Num 1000"
    using exact_delay [of 2 0 1000 approx 30000] by simp
  have e1: "jsMin (jsMul (Num 1000) (mathPow approx (Num 2) 1)) (Num 30000) = Num 2000"
    using exact_delay [of 2 1 1000 approx 30000] by simp
  have e2: "jsMin (jsMul (Num 1000) (mathPow approx (Num 2) 2)) (Num 30000) = Num 4000"
    using exact_delay [of 2 2 1000 approx 30000] by simp
  from len have "length (delays run) = 0 \<or> length (delays run) = 1
      \<or> length (delays run) = 2 \<or> length (delays run) = 3" by arith
  then have "delays run = take (length (delays run)) [Num 1000, Num 2000, Num 4000]"
  proof (elim disjE)
    assume l: "length (delays run) = 0"
    then show ?thesis by simp
  next
    assume l: "length (delays run) = 1"
    have "[0..<1] = [0::nat]" by simp
    with d l e0 show ?thesis by simp
  next
    assume l: "length (delays run) = 2"
    have "[0..<2] = [0::nat, 1]" by (simp add: upt_rec)
    with d l e0 e1 show ?thesis by simp
  next
    assume l: "length (delays run) = 3"
    have "[0..<3] = [0::nat, 1, 2]" by (simp add: upt_rec)
    with d l e0 e1 e2 show ?thesis by simp
  qed
  with run show "\<exists>run. withRetry approx fn noOptions = Some run
           \<and> delays run = take (length (delays run)) [Num 1000, Num 2000, Num 4000]"
    by blast
next
  have t: "isRetryableError (Error ''ETIMEDOUT'')" by code_simp
  have e0: "jsMin (jsMul (Num 1000) (mathPow approx (Num 2) 0)) (Num 30000) = Num 1000"
    using exact_delay [of 2 0 1000 approx 30000] by simp
  have e1: "jsMin (jsMul (Num 1000) (mathPow approx (Num 2) (Suc 0))) (Num 30000) = Num 2000"
    using exact_delay [of 2 1 1000 approx 30000] by simp
  have e2: "jsMin (jsMul (Num 1000) (mathPow approx (Num 2) (Suc (Suc 0)))) (Num 30000) = Num 4000"
    using exact_delay [of 2 2 1000 approx 30000] by (simp add: numeral_2_eq_2)
  have u: "[0..<3] = [0, Suc 0, Suc (Suc 0)]" by (simp add: upt_rec numeral_3_eq_3)
  from retryLoop_always_failing [OF t, of 0 3 approx "Num 1000" "Num 30000" "Num 2" None 0 "[]"]
  show "withRetry approx (\<lambda>k. Inl (Error ''ETIMEDOUT'') :: js_error + 'r) noOptions
          = Some \<lparr>outcome = Threw (Error ''ETIMEDOUT''), calls = 4,
                  delays = [Num 1000, Num 2000, Num 4000]\<rparr>"
    by (simp add: withRetry_def noOptions_def orDefault_def CONFIG_def u e0 e1 e2)
next
  assume "maxRetries options \<noteq> Some PosInfinity"
  then have "orDefault (maxRetries options) (DEFAULT_MAX_RETRIES CONFIG) \<noteq> PosInfinity"
    by (auto simp: orDefault_def CONFIG_def split: option.splits)
  then show "\<exists>run. withRetry approx fn options = Some run"
    unfolding withRetry_def by (rule retryLoop_returns)
qed

theorem withRetry_backoff_delays_witness:
  "withRetry (\<lambda>r k. NaN) (\<lambda>k. Inl (Error ''ETIMEDOUT'') :: js_error + unit)
     \<lparr>maxRetries = None, baseDelay = Some (Num (of_int 1000)), maxDelay = Some (Num (of_int 30000)),
      backoffFactor = Some (Num (of_int 2))\<rparr>
     = Some \<lparr>outcome = Threw (Error ''ETIMEDOUT''), calls = 4,
             delays = [Num 1000, Num 2000, Num 4000]\<rparr>
   \<and> (1::nat) \<le> 3
   \<and> 3 \<le> length (delays \<lparr>outcome = Threw (Error ''ETIMEDOUT'') :: unit completion, calls = 4,
                            delays = [Num 1000, Num 2000, Num 4000]\<rparr>)
   \<and> \<bar>(2::int) ^ (3 - 1)\<bar> < 2 ^ 53 \<and> \<bar>(1000::int) * 2 ^ (3 - 1)\<bar> < 2 ^ 53
   \<and> delays \<lparr>outcome = Threw (Error ''ETIMEDOUT'') :: unit completion, calls = 4,
              delays = [Num 1000, Num 2000, Num 4000]\<rparr> ! (3 - 1)
       = Num (of_int (min (1000 * 2 ^ (3 - 1)) 30000))"
proof -
  let ?approx = "\<lambda>(r::rat) (k::nat). NaN"
  let ?fn = "\<lambda>k. Inl (Error ''ETIMEDOUT'') :: js_error + unit"
  let ?run = "\<lparr>outcome = Threw (Error ''ETIMEDOUT'') :: unit completion, calls = 4,
               delays = [Num 1000, Num 2000, Num 4000]\<rparr>"
  have r: "withRetry ?approx ?fn
     \<lparr>maxRetries = None, baseDelay = Some (Num (of_int 1000)), maxDelay = Some (Num (of_int 30000)),
      backoffFactor = Some (Num (of_int 2))\<rparr> = Some ?run"
    using withRetry_backoff_delays [where approx = ?approx, THEN conjunct2, THEN conjunct2, THEN conjunct2,
        THEN conjunct1]
    by (simp add: withRetry_def noOptions_def orDefault_def CONFIG_def)
  have h: "(1::nat) \<le> 3 \<and> 3 \<le> length (delays ?run)
      \<and> \<bar>(2::int) ^ (3 - 1)\<bar> < 2 ^ 53 \<and> \<bar>(1000::int) * 2 ^ (3 - 1)\<bar> < 2 ^ 53"
    by simp
  from withRetry_backoff_delays [where approx = ?approx and fn = ?fn and mr = None and b = 1000 and m = 30000
      and f = 2 and run = ?run and n = 3] r h
  have "delays ?run ! (3 - 1) = Num (of_int (min (1000 * 2 ^ (3 - 1)) 30000))"
    by blast
  with r h show ?thesis by blast
qed

text \<open>
  C4 as the claim states it fails where the product is not a double: with
  \<^verbatim>\<open>baseDelay\<close> \<open>2 ^ 53 - 1\<close>, \<^verbatim>\<open>backoffFactor\<close> 3 and \<^verbatim>\<open>maxDelay\<close>
  \<open>10 ^ 17\<close> the delay slept before the second retry is 27021597764222972, whereas
  \<open>min (baseDelay * backoffFactor ^ (2 - 1)) maxDelay\<close> is 27021597764222973.
\<close>

theorem withRetry_backoff_exact_counterexample:
  "withRetry (\<lambda>r k. NaN) (\<lambda>k. Inl (Error ''ETIMEDOUT'') :: js_error + unit)
     \<lparr>maxRetries = None, baseDelay = Some (Num 9007199254740991),
      maxDelay = Some (Num 100000000000000000), backoffFactor = Some (Num 3)\<rparr>
   = Some \<lparr>outcome = Threw (Error ''ETIMEDOUT''), calls = 4,
           delays = [Num 9007199254740991, Num 27021597764222972, Num 81064793292668912]\<rparr>
   \<and> Num 27021597764222972 \<noteq> Num (of_int (min (9007199254740991 * 3 ^ (2 - 1)) 100000000000000000))"
proof -
  let ?approx = "\<lambda>(r::rat) (k::nat). NaN"
  let ?B = "Num 9007199254740991"
  let ?M = "Num 100000000000000000"
  have t: "isRetryableError (Error ''ETIMEDOUT'')" by code_simp
  have p1: "mathPow ?approx (Num 3) (Suc 0) = Num 3"
    using mathPow_int [of 3 1 ?approx] by simp
  have p2: "mathPow ?approx (Num 3) (Suc (Suc 0)) = Num 9"
    using mathPow_int [of 3 2 ?approx] by (simp add: numeral_2_eq_2)
  have d0: "jsMin (jsMul ?B (mathPow ?approx (Num 3) 0)) ?M = ?B"
    using exact_delay [of 3 0 9007199254740991 ?approx 100000000000000000] by simp
  have d1: "jsMin (jsMul ?B (mathPow ?approx (Num 3) (Suc 0))) ?M = Num 27021597764222972"
    by (simp add: p1 roundD_3B)
  have d2: "jsMin (jsMul ?B (mathPow ?approx (Num 3) (Suc (Suc 0)))) ?M = Num 81064793292668912"
    by (simp add: p2 roundD_9B)
  have u: "[0..<3] = [0, Suc 0, Suc (Suc 0)]" by (simp add: upt_rec numeral_3_eq_3)
  from retryLoop_always_failing [OF t, of 0 3 ?approx ?B ?M "Num 3" None 0 "[]"]
  have "withRetry ?approx (\<lambda>k. Inl (Error ''ETIMEDOUT'') :: js_error + unit)
     \<lparr>maxRetries = None, baseDelay = Some ?B, maxDelay = Some ?M, backoffFactor = Some (Num 3)\<rparr>
   = Some \<lparr>outcome = Threw (Error ''ETIMEDOUT''), calls = 4,
           delays = [?B, Num 27021597764222972, Num 81064793292668912]\<rparr>"
    by (simp add: withRetry_def orDefault_def CONFIG_def u d0 d1 d2)
  then show ?thesis by simp
qed

section \<open>A video without captions\<close>

text \<open>
  C7. When the external tool completes and no caption file is found, the download of
  the video throws a \<open>DownloadError\<close> with the message
  \<^verbatim>\<open>No subtitles available for this video\<close> and the retryable flag \<open>False\<close>; the
  classifier calls it non-retryable, and \<open>withRetry\<close>, entered with
  \<^verbatim>\<open>0 <= maxRetries\<close>, gives up after that one invocation without a delay.
\<close>

theorem no_subtitles_not_retried:
  assumes "tempDir w = None" and "executeYtDlp w = None" and "findSubtitleFiles w = Inr []"
  shows "downloadVideoSubtitle w v
           = Inl (DownloadError ''No subtitles available for this video'' (video_id v) False)
       \<and> \<not> isRetryableError (DownloadError ''No subtitles available for this video'' (video_id v) False)
       \<and> (worlds 0 = w \<and> jsLe (Num 0) maxR \<longrightarrow>
            downloadWithRetry approx worlds v maxR
              = Some \<lparr>outcome = Threw (DownloadError ''No subtitles available for this video''
                                          (video_id v) False),
                      calls = 1, delays = []\<rparr>)"
proof -
  let ?e = "DownloadError ''No subtitles available for this video'' (video_id v) False"
  have i: "includesStr ''No subtitles available for this video'' ''No subtitles''"
    by (simp add: includesStr_def)
  have d: "downloadVideoSubtitle w v = Inl ?e"
    using assms i
    by (simp add: downloadVideoSubtitle_def downloadTry_def Let_def messageOrToString_def)
  have n: "\<not> isRetryableError ?e" by simp
  have r: "downloadWithRetry approx worlds v maxR = Some \<lparr>outcome = Threw ?e, calls = 1, delays = []\<rparr>"
    if "worlds 0 = w" "jsLe (Num 0) maxR"
    unfolding downloadWithRetry_def withRetry_def
    using that d n
    by (intro retryLoop_first_non_retryable)
      (simp_all add: orDefault_def noOptions_def del: isRetryableError.simps)
  from d n r show ?thesis by blast
qed

theorem no_subtitles_not_retried_witness:
  "downloadWithRetry (\<lambda>r k. NaN)
     (\<lambda>k. \<lparr>videoInfo = Inl (Error ''offline''), tempDir = None, executeYtDlp = None,
            findSubtitleFiles = Inr [], convertFiles = (\<lambda>v fs. Inl (Error ''unused''))\<rparr>)
     \<lparr>video_id = ''dQw4w9WgXcQ'', title = ''A video'', url = ''https://youtu.be/dQw4w9WgXcQ'',
      upload_date = None, uploader = None, duration = None\<rparr> (Num 3)
   = Some \<lparr>outcome = Threw (DownloadError ''No subtitles available for this video'' ''dQw4w9WgXcQ'' False),
           calls = 1, delays = []\<rparr>"
  using no_subtitles_not_retried
    [where w = "\<lparr>videoInfo = Inl (Error ''offline''), tempDir = None, executeYtDlp = None,
            findSubtitleFiles = Inr [], convertFiles = (\<lambda>v fs. Inl (Error ''unused''))\<rparr>"
       and worlds = "\<lambda>k. \<lparr>videoInfo = Inl (Error ''offline''), tempDir = None, executeYtDlp = None,
            findSubtitleFiles = Inr [], convertFiles = (\<lambda>v fs. Inl (Error ''unused''))\<rparr>"
       and maxR = "Num 3" and approx = "\<lambda>r k. NaN"
       and v = "\<lparr>video_id = ''dQw4w9WgXcQ'', title = ''A video'', url = ''https://youtu.be/dQw4w9WgXcQ'',
            upload_date = None, uploader = None, duration = None\<rparr>"]
  by simp

section \<open>The progress tracker on an id that was never started\<close>

lemma percentOf_0_1: "percentOf 0 (Suc 0) = 0"
  by (simp add: percentOf_def roundRat_def floor_eq_iff)

lemma percentOf_1_1: "percentOf (Suc 0) (Suc 0) = 100"
  using roundRat_int [of 1] roundRat_int [of 100]
  by (simp add: percentOf_def floor_eq_iff)

lemma known_tracker:
  "startVideo plain ''known-video'' ''Known'' (progressStart plain (Suc 0) newTracker)
   = \<lparr>mainSpinner = Some \<lparr>sp_text = ''Overall Progress: 0% | 0 succeeded'', sp_state = Spinning\<rparr>,
      videoSpinners = [(''known-video'',
         \<lparr>v_spinner = \<lparr>sp_text = ''Known'', sp_state = Spinning\<rparr>, v_title = ''Known'',
          v_status = ''processing''\<rparr>)],
      stats = \<lparr>p_total = Suc 0, p_completed = 0, p_succeeded = 0, p_failed = 0\<rparr>\<rparr>"
proof -
  have z: "showInt 0 = ''0''" "showNat 0 = ''0''"
    "truncateStr ''Known'' 60 = ''Known''" by code_simp+
  show ?thesis
    by (simp add: startVideo_def progressStart_def newTracker_def updateDisplay_def ora_def
        isSpinning_def plain_def getMainSpinnerText_def percentOf_0_1 z Let_def)
qed

text \<open>
  C9, as the code has it. For an id that \<open>startVideo\<close> never saw, \<open>succeedVideo\<close> and
  \<open>failVideo\<close> create and change no per-video entry, but they do count: \<open>completed\<close>
  and \<open>succeeded\<close> (respectively \<open>failed\<close>) each grow by one, and the main spinner, when
  there is one, is given the text computed from the new counters.
\<close>

theorem unknown_id_counts_only:
  assumes "map_of (videoSpinners t) videoId = None"
  shows "videoSpinners (succeedVideo ch videoId ttl t) = videoSpinners t
       \<and> stats (succeedVideo ch videoId ttl t)
           = (stats t)\<lparr>p_completed := p_completed (stats t) + 1,
                       p_succeeded := p_succeeded (stats t) + 1\<rparr>
       \<and> mainSpinner (succeedVideo ch videoId ttl t)
           = map_option
               (\<lambda>sp. sp\<lparr>sp_text := getMainSpinnerText ch
                   (t\<lparr>stats := (stats t)\<lparr>p_completed := p_completed (stats t) + 1,
                                           p_succeeded := p_succeeded (stats t) + 1\<rparr>\<rparr>)\<rparr>)
               (mainSpinner t)
       \<and> videoSpinners (failVideo ch videoId ttl errorMessage t) = videoSpinners t
       \<and> stats (failVideo ch videoId ttl errorMessage t)
           = (stats t)\<lparr>p_completed := p_completed (stats t) + 1,
                       p_failed := p_failed (stats t) + 1\<rparr>
       \<and> mainSpinner (failVideo ch videoId ttl errorMessage t)
           = map_option
               (\<lambda>sp. sp\<lparr>sp_text := getMainSpinnerText ch
                   (t\<lparr>stats := (stats t)\<lparr>p_completed := p_completed (stats t) + 1,
                                           p_failed := p_failed (stats t) + 1\<rparr>\<rparr>)\<rparr>)
               (mainSpinner t)"
  using assms
  by (simp add: succeedVideo_def failVideo_def updateMainSpinner_def Let_def split: option.splits)

theorem unknown_id_counts_only_witness:
  "map_of (videoSpinners (startVideo plain ''known-video'' ''Known'' (progressStart plain 1 newTracker)))
     ''dQw4w9WgXcQ'' = None
   \<and> videoSpinners (succeedVideo plain ''dQw4w9WgXcQ'' ''A video''
        (startVideo plain ''known-video'' ''Known'' (progressStart plain 1 newTracker)))
      = [(''known-video'',
         \<lparr>v_spinner = \<lparr>sp_text = ''Known'', sp_state = Spinning\<rparr>, v_title = ''Known'',
          v_status = ''processing''\<rparr>)]
   \<and> stats (failVideo plain ''dQw4w9WgXcQ'' ''A video'' ''boom''
        (startVideo plain ''known-video'' ''Known'' (progressStart plain 1 newTracker)))
      = \<lparr>p_total = 1, p_completed = 1, p_succeeded = 0, p_failed = 1\<rparr>"
proof -
  let ?t = "startVideo plain ''known-video'' ''Known'' (progressStart plain 1 newTracker)"
  have h: "map_of (videoSpinners ?t) ''dQw4w9WgXcQ'' = None"
    by (simp add: known_tracker)
  from unknown_id_counts_only [OF h, where ch = plain and ttl = "''A video''" and errorMessage = "''boom''"] h
  show ?thesis by (simp add: known_tracker)
qed

text \<open>
  C9 as the claim states it fails: on a tracker that was started for one video, with
  another video in progress, \<open>succeedVideo\<close> and \<open>failVideo\<close> for an unknown id change
  the state: the counters go from 0 to 1 and the main spinner shows 100%.
\<close>

theorem unknown_id_unchanged_counterexample:
  "map_of (videoSpinners (startVideo plain ''known-video'' ''Known'' (progressStart plain 1 newTracker)))
     ''dQw4w9WgXcQ'' = None
   \<and> succeedVideo plain ''dQw4w9WgXcQ'' ''A video''
        (startVideo plain ''known-video'' ''Known'' (progressStart plain 1 newTracker))
      \<noteq> startVideo plain ''known-video'' ''Known'' (progressStart plain 1 newTracker)
   \<and> stats (startVideo plain ''known-video'' ''Known'' (progressStart plain 1 newTracker))
      = \<lparr>p_total = 1, p_completed = 0, p_succeeded = 0, p_failed = 0\<rparr>
   \<and> stats (succeedVideo plain ''dQw4w9WgXcQ'' ''A video''
        (startVideo plain ''known-video'' ''Known'' (progressStart plain 1 newTracker)))
      = \<lparr>p_total = 1, p_completed = 1, p_succeeded = 1, p_failed = 0\<rparr>
   \<and> mainSpinner (succeedVideo plain ''dQw4w9WgXcQ'' ''A video''
        (startVideo plain ''known-video'' ''Known'' (progressStart plain 1 newTracker)))
      = Some \<lparr>sp_text = ''Overall Progress: 100% | 1 succeeded'', sp_state = Spinning\<rparr>
   \<and> stats (failVideo plain ''dQw4w9WgXcQ'' ''A video'' ''boom''
        (startVideo plain ''known-video'' ''Known'' (progressStart plain 1 newTracker)))
      = \<lparr>p_total = 1, p_completed = 1, p_succeeded = 0, p_failed = 1\<rparr>"
proof -
  have z: "showInt 100 = ''100''" "showNat (Suc 0) = ''1''" "showNat 0 = ''0''" by code_simp+
  show ?thesis
    by (simp add: known_tracker succeedVideo_def failVideo_def updateMainSpinner_def
        getMainSpinnerText_def percentOf_1_1 z plain_def Let_def)
qed

section \<open>The report of the statistics collector\<close>

lemma showNat_nonempty: "showNat n \<noteq> []"
  by (subst showNat.simps) simp

lemma digit_nth: "n < 10 \<Longrightarrow> isDigit (''0123456789'' ! n)"
  unfolding isDigit_def by (rule nth_mem) simp

lemma hd_showNat_digit: "isDigit (hd (showNat n))"
proof (induction n rule: showNat.induct)
  case (1 n)
  show ?case
  proof (cases "n < 10")
    case True
    then have "showNat n = [''0123456789'' ! n]" by (subst showNat.simps) (simp only: if_True)
    with digit_nth [OF True] show ?thesis by (simp only: list.sel)
  next
    case False
    then have "showNat n = showNat (n div 10) @ [''0123456789'' ! (n mod 10)]"
      by (subst showNat.simps) (simp only: if_False)
    with 1 False show ?thesis by (simp add: hd_append2 [OF showNat_nonempty])
  qed
qed

lemma notIndented_separator: "notIndented separator"
  by (simp add: notIndented_def separator_def)

lemma notIndented_showNat: "notIndented (showNat n @ t)"
proof -
  have "hd (showNat n @ t) = hd (showNat n)" by (simp add: showNat_nonempty)
  moreover have "\<not> isDigit (CHR '' '')" by (simp add: isDigit_def)
  ultimately show ?thesis using hd_showNat_digit [of n] by (auto simp: notIndented_def)
qed

lemma notIndented_summaryLines: "l \<in> set (summaryLines plain formatFileSize now s) \<Longrightarrow> notIndented l"
  using notIndented_separator
  by (auto simp: summaryLines_def plain_def Let_def chartIcon_def checkMark_def crossMark_def notIndented_def)

lemma not_notIndented_item: "\<not> notIndented (''  '' @ t)"
  by (simp add: notIndented_def)

lemma summary_no_item: "(''  '' @ t) \<notin> set (summaryLines plain formatFileSize now s)"
  using notIndented_summaryLines not_notIndented_item by blast

lemma count_no_item: "(''  '' @ t) \<noteq> plain [''red''] (showNat n @ u)"
  using notIndented_showNat [of n u] not_notIndented_item [of t] by (auto simp: plain_def)

text \<open>
  C8. With more than 5 failures the report is the summary followed by an empty line and
  the line stating the number of failures: it depends on the failures only through
  their number, and without styling none of its lines is an itemized line, two spaces,
  a bullet, a title, a colon and an error message, whatever the title and the message.
  With 1 to 5 failures it is the summary followed by an empty line, the heading, and for
  every failure in order the line made of two spaces, the bullet, the title of the
  failure, a colon and its error message. \<open>getStats\<close> returns the whole list of
  failures, to which \<open>recordFailure\<close> only appends.
\<close>

theorem generateReport_failure_listing:
  "(5 < length (errors s) \<longrightarrow>
      generateReport ch formatFileSize now s
        = joinWith [LF] (summaryLines ch formatFileSize now s
            @ [[], ch [''red''] (showNat (length (errors s))
                                  @ '' videos failed (use --verbose for details)'')])
      \<and> (\<forall>es. length es = length (errors s) \<longrightarrow>
            generateReport ch formatFileSize now (s\<lparr>errors := es\<rparr>)
              = generateReport ch formatFileSize now s)
      \<and> (\<forall>ttl msg. (''  '' @ bullet @ '' '' @ ttl @ '': '' @ msg)
              \<notin> set (summaryLines plain formatFileSize now s @ failureLines plain s)))
   \<and> (1 \<le> length (errors s) \<and> length (errors s) \<le> 5 \<longrightarrow>
        generateReport ch formatFileSize now s
          = joinWith [LF] (summaryLines ch formatFileSize now s
              @ [[], ch [''bold'', ''red''] ''Failed Videos:'']
              @ map (\<lambda>e. ch [''red''] (''  '' @ bullet @ '' '' @ e_title e @ '': '' @ e_error e))
                  (errors s)))
   \<and> g_errors (getStats now s) = errors s
   \<and> errors (recordFailure videoId ttl error s)
        = errors s @ [\<lparr>e_videoId = videoId, e_title = ttl, e_error = message error\<rparr>]"
proof (intro conjI impI allI)
  assume n: "5 < length (errors s)"
  then show "generateReport ch formatFileSize now s
        = joinWith [LF] (summaryLines ch formatFileSize now s
            @ [[], ch [''red''] (showNat (length (errors s))
                                  @ '' videos failed (use --verbose for details)'')])"
    by (simp add: generateReport_def failureLines_def)
  fix es :: "failure list" assume "length es = length (errors s)"
  with n show "generateReport ch formatFileSize now (s\<lparr>errors := es\<rparr>)
              = generateReport ch formatFileSize now s"
    by (simp add: generateReport_def failureLines_def summaryLines_def getElapsedTime_def
        getAverageTime_def getSuccessRate_def)
next
  fix ttl msg :: string assume n: "5 < length (errors s)"
  let ?l = "''  '' @ bullet @ '' '' @ ttl @ '': '' @ msg"
  have "?l \<noteq> []" by simp
  with n count_no_item [of "bullet @ '' '' @ ttl @ '': '' @ msg" "length (errors s)"
      "'' videos failed (use --verbose for details)''"]
  have "?l \<notin> set (failureLines plain s)"
    by (simp add: failureLines_def plain_def)
  with summary_no_item [of "bullet @ '' '' @ ttl @ '': '' @ msg" formatFileSize now s]
  show "?l \<notin> set (summaryLines plain formatFileSize now s @ failureLines plain s)"
    by simp
next
  assume a: "1 \<le> length (errors s) \<and> length (errors s) \<le> 5"
  then have "errors s \<noteq> []" by auto
  with a show "generateReport ch formatFileSize now s
          = joinWith [LF] (summaryLines ch formatFileSize now s
              @ [[], ch [''bold'', ''red''] ''Failed Videos:'']
              @ map (\<lambda>e. ch [''red''] (''  '' @ bullet @ '' '' @ e_title e @ '': '' @ e_error e))
                  (errors s))"
    by (simp add: generateReport_def failureLines_def)
next
  show "g_errors (getStats now s) = errors s" by (simp add: getStats_def)
next
  show "errors (recordFailure videoId ttl error s)
        = errors s @ [\<lparr>e_videoId = videoId, e_title = ttl, e_error = message error\<rparr>]"
    by (simp add: recordFailure_def)
qed

theorem generateReport_failure_listing_witness:
  "5 < length (errors ((reset 0)\<lparr>errors := replicate 6 \<lparr>e_videoId = ''v'', e_title = ''T'', e_error = ''boom''\<rparr>\<rparr>))
   \<and> failureLines plain ((reset 0)\<lparr>errors := replicate 6 \<lparr>e_videoId = ''v'', e_title = ''T'', e_error = ''boom''\<rparr>\<rparr>)
       = [[], ''6 videos failed (use --verbose for details)'']
   \<and> 1 \<le> length (errors ((reset 0)\<lparr>errors :=
            [\<lparr>e_videoId = ''v1'', e_title = ''First'', e_error = ''boom''\<rparr>,
             \<lparr>e_videoId = ''v2'', e_title = ''Second'', e_error = ''HTTP Error 404''\<rparr>]\<rparr>))
   \<and> length (errors ((reset 0)\<lparr>errors :=
            [\<lparr>e_videoId = ''v1'', e_title = ''First'', e_error = ''boom''\<rparr>,
             \<lparr>e_videoId = ''v2'', e_title = ''Second'', e_error = ''HTTP Error 404''\<rparr>]\<rparr>)) \<le> 5
   \<and> generateReport plain showNat 0 ((reset 0)\<lparr>errors :=
            [\<lparr>e_videoId = ''v1'', e_title = ''First'', e_error = ''boom''\<rparr>,
             \<lparr>e_videoId = ''v2'', e_title = ''Second'', e_error = ''HTTP Error 404''\<rparr>]\<rparr>)
       = joinWith [LF] (summaryLines plain showNat 0 ((reset 0)\<lparr>errors :=
            [\<lparr>e_videoId = ''v1'', e_title = ''First'', e_error = ''boom''\<rparr>,
             \<lparr>e_videoId = ''v2'', e_title = ''Second'', e_error = ''HTTP Error 404''\<rparr>]\<rparr>)
           @ [[], ''Failed Videos:'',
              [CHR '' '', CHR '' '', CHR 0xE2, CHR 0x80, CHR 0xA2] @ '' First: boom'',
              [CHR '' '', CHR '' '', CHR 0xE2, CHR 0x80, CHR 0xA2] @ '' Second: HTTP Error 404''])"
proof -
  let ?six = "(reset 0)\<lparr>errors := replicate 6 \<lparr>e_videoId = ''v'', e_title = ''T'', e_error = ''boom''\<rparr>\<rparr>"
  let ?two = "(reset 0)\<lparr>errors :=
            [\<lparr>e_videoId = ''v1'', e_title = ''First'', e_error = ''boom''\<rparr>,
             \<lparr>e_videoId = ''v2'', e_title = ''Second'', e_error = ''HTTP Error 404''\<rparr>]\<rparr>"
  have six: "showNat 6 = ''6''" by code_simp
  have a: "5 < length (errors ?six)" by simp
  have b: "1 \<le> length (errors ?two) \<and> length (errors ?two) \<le> 5" by simp
  from a b six
    generateReport_failure_listing
      [where s = ?six and ch = plain and formatFileSize = showNat and now = 0]
    generateReport_failure_listing
      [where s = ?two and ch = plain and formatFileSize = showNat and now = 0]
  show ?thesis
    by (simp add: failureLines_def plain_def bullet_def)
qed

section \<open>A subtitle file that cannot be parsed\<close>

text \<open>
  C10, as the code has it. When the parser of the library throws on the content of a
  subtitle file whose name does not end in \<^verbatim>\<open>.vtt\<close>, \<open>convertToPlainText\<close> throws a
  \<open>ParseError\<close> with the path of that file and leaves the file system as it was:
  nothing written, nothing deleted, whatever \<^verbatim>\<open>deleteOriginal\<close> is. A file whose
  name ends in \<^verbatim>\<open>.vtt\<close> is never given to that parser: whatever its content, and
  unless writing or unlinking fails, the text that \<open>parseVTT\<close> makes of it is written
  to the output file and returned, and the original is deleted when
  \<^verbatim>\<open>deleteOriginal\<close> is true.
\<close>

theorem convertToPlainText_parse_failure:
  assumes "files fs subtitlePath = Some content"
  shows "(\<not> endsWith subtitlePath ''.vtt'' \<and> subsrtParse content = Inl m \<longrightarrow>
            convertToPlainText subsrtParse fs subtitlePath outputPath deleteOriginal
              = (Inl (ParseError (''Failed to parse subtitle file: '' @ m) subtitlePath), fs))
       \<and> (endsWith subtitlePath ''.vtt'' \<and> writeError fs outputPath = None
            \<and> unlinkError fs subtitlePath = None \<longrightarrow>
            convertToPlainText subsrtParse fs subtitlePath outputPath deleteOriginal
              = (Inr (parseVTT content),
                 fs\<lparr>files := (if deleteOriginal
                                then ((files fs)(outputPath \<mapsto> parseVTT content))(subtitlePath := None)
                                else (files fs)(outputPath \<mapsto> parseVTT content))\<rparr>))"
  using assms
  by (simp add: convertToPlainText_def convertTry_def readFile_def plainTextOf_def
      writeFile_def deleteFile_def fileExists_def)

theorem convertToPlainText_parse_failure_witness:
  "files \<lparr>files = [''a.en.srt'' \<mapsto> ''garbage''], readError = (\<lambda>p. ''ENOENT: no such file or directory''),
          writeError = Map.empty, unlinkError = Map.empty\<rparr> ''a.en.srt'' = Some ''garbage''
   \<and> \<not> endsWith ''a.en.srt'' ''.vtt''
   \<and> convertToPlainText (\<lambda>c. Inl ''bad format'')
        \<lparr>files = [''a.en.srt'' \<mapsto> ''garbage''], readError = (\<lambda>p. ''ENOENT: no such file or directory''),
          writeError = Map.empty, unlinkError = Map.empty\<rparr>
        ''a.en.srt'' ''a.en.txt'' True
       = (Inl (ParseError ''Failed to parse subtitle file: bad format'' ''a.en.srt''),
          \<lparr>files = [''a.en.srt'' \<mapsto> ''garbage''], readError = (\<lambda>p. ''ENOENT: no such file or directory''),
            writeError = Map.empty, unlinkError = Map.empty\<rparr>)
   \<and> files \<lparr>files = [''b.en.vtt'' \<mapsto> ''Hello''], readError = (\<lambda>p. ''ENOENT: no such file or directory''),
          writeError = Map.empty, unlinkError = Map.empty\<rparr> ''b.en.vtt'' = Some ''Hello''
   \<and> endsWith ''b.en.vtt'' ''.vtt''
   \<and> convertToPlainText (\<lambda>c. Inl ''bad format'')
        \<lparr>files = [''b.en.vtt'' \<mapsto> ''Hello''], readError = (\<lambda>p. ''ENOENT: no such file or directory''),
          writeError = Map.empty, unlinkError = Map.empty\<rparr>
        ''b.en.vtt'' ''b.en.txt'' True
       = (Inr ''Hello'',
          \<lparr>files = ([''b.en.vtt'' \<mapsto> ''Hello''](''b.en.txt'' \<mapsto> ''Hello''))(''b.en.vtt'' := None),
            readError = (\<lambda>p. ''ENOENT: no such file or directory''),
            writeError = Map.empty, unlinkError = Map.empty\<rparr>)"
proof -
  let ?srt = "\<lparr>files = [''a.en.srt'' \<mapsto> ''garbage''], readError = (\<lambda>p. ''ENOENT: no such file or directory''),
          writeError = Map.empty, unlinkError = Map.empty\<rparr>"
  let ?vtt = "\<lparr>files = [''b.en.vtt'' \<mapsto> ''Hello''], readError = (\<lambda>p. ''ENOENT: no such file or directory''),
          writeError = Map.empty, unlinkError = Map.empty\<rparr>"
  have a: "files ?srt ''a.en.srt'' = Some ''garbage''" by simp
  have b: "\<not> endsWith ''a.en.srt'' ''.vtt''" by code_simp
  have c: "files ?vtt ''b.en.vtt'' = Some ''Hello''" by simp
  have d: "endsWith ''b.en.vtt'' ''.vtt''" by code_simp
  have p: "parseVTT ''Hello'' = ''Hello''" by code_simp
  show ?thesis
    using a b c d p
      convertToPlainText_parse_failure [OF a, where subsrtParse = "\<lambda>c. Inl ''bad format''"
        and m = "''bad format''" and outputPath = "''a.en.txt''" and deleteOriginal = True]
      convertToPlainText_parse_failure [OF c, where subsrtParse = "\<lambda>c. Inl ''bad format''"
        and outputPath = "''b.en.txt''" and deleteOriginal = True]
    by simp
qed

text \<open>
  C10 as the claim states it fails for a \<^verbatim>\<open>.vtt\<close> file: content that the parser
  of the library rejects, under the name \<^verbatim>\<open>a.en.vtt\<close>, raises nothing; the output
  file is written and the original is deleted.
\<close>

theorem convertToPlainText_vtt_counterexample:
  "(\<lambda>c. Inl ''bad format'' :: string + srt_caption list) ''garbage'' = Inl ''bad format''
   \<and> fst (convertToPlainText (\<lambda>c. Inl ''bad format'')
        \<lparr>files = [''a.en.vtt'' \<mapsto> ''garbage''], readError = (\<lambda>p. ''ENOENT: no such file or directory''),
          writeError = Map.empty, unlinkError = Map.empty\<rparr>
        ''a.en.vtt'' ''a.en.txt'' True) = Inr ''garbage''
   \<and> files (snd (convertToPlainText (\<lambda>c. Inl ''bad format'')
        \<lparr>files = [''a.en.vtt'' \<mapsto> ''garbage''], readError = (\<lambda>p. ''ENOENT: no such file or directory''),
          writeError = Map.empty, unlinkError = Map.empty\<rparr>
        ''a.en.vtt'' ''a.en.txt'' True)) ''a.en.txt'' = Some ''garbage''
   \<and> files (snd (convertToPlainText (\<lambda>c. Inl ''bad format'')
        \<lparr>files = [''a.en.vtt'' \<mapsto> ''garbage''], readError = (\<lambda>p. ''ENOENT: no such file or directory''),
          writeError = Map.empty, unlinkError = Map.empty\<rparr>
        ''a.en.vtt'' ''a.en.txt'' True)) ''a.en.vtt'' = None"
  by code_simp

section \<open>The task queue runs every item to an outcome\<close>

lemma accounted_admit: "pending q \<noteq> [] \<Longrightarrow> accounted (admit q) = accounted q"
  by (cases "pending q") (simp_all add: accounted_def admit_def)

lemma faithful_admit: "faithful processFn (admit q) = faithful processFn q"
  by (simp add: faithful_def admit_def)

lemma mset_remove_nth:
  "k < length xs \<Longrightarrow> mset (take k xs @ drop (Suc k) xs) + {#xs ! k#} = mset xs"
proof -
  assume "k < length xs"
  then have "xs = take k xs @ xs ! k # drop (Suc k) xs" by (rule id_take_nth_drop)
  then have "mset xs = mset (take k xs @ xs ! k # drop (Suc k) xs)" by simp
  then show ?thesis by simp
qed

lemma accounted_settle:
  assumes "k < length (active q)"
  shows "accounted (settle processFn k q) = accounted q"
proof -
  obtain item index where a: "active q ! k = (item, index)" by (cases "active q ! k")
  from mset_remove_nth [OF assms] a
  have m: "mset (take k (active q) @ drop (Suc k) (active q)) + {#(item, index)#} = mset (active q)"
    by simp
  show ?thesis
  proof (cases "processFn item index")
    case (Inl e)
    with a m [symmetric] show ?thesis
      by (simp add: settle_def accounted_def failureKey_def)
  next
    case (Inr r)
    with a m [symmetric] show ?thesis
      by (simp add: settle_def accounted_def successKey_def)
  qed
qed

lemma faithful_settle:
  assumes "faithful processFn q"
  shows "faithful processFn (settle processFn k q)"
proof -
  obtain item index where a: "active q ! k = (item, index)" by (cases "active q ! k")
  show ?thesis
  proof (cases "processFn item index")
    case (Inl e)
    with a assms show ?thesis by (auto simp: settle_def faithful_def)
  next
    case (Inr r)
    with a assms show ?thesis by (auto simp: settle_def faithful_def)
  qed
qed

lemma drain_invariant:
  "faithful processFn q \<Longrightarrow>
   accounted (drain processFn concurrency pick q) = accounted q
   \<and> faithful processFn (drain processFn concurrency pick q)
   \<and> active (drain processFn concurrency pick q) = []
   \<and> (1 \<le> concurrency \<longrightarrow> pending (drain processFn concurrency pick q) = [])"
proof (induction processFn concurrency pick q rule: drain.induct)
  case (1 processFn concurrency pick q)
  show ?case
  proof (cases "pending q \<noteq> [] \<and> length (active q) < concurrency")
    case True
    then have eq: "drain processFn concurrency pick q = drain processFn concurrency pick (admit q)"
      by (subst drain.simps) simp
    from "1.IH"(1) [OF True] "1.prems" True show ?thesis
      unfolding eq by (simp add: faithful_admit accounted_admit)
  next
    case False
    show ?thesis
    proof (cases "active q \<noteq> []")
      case a: True
      let ?k = "pick q mod length (active q)"
      from a have k: "?k < length (active q)" by simp
      from False a have eq: "drain processFn concurrency pick q
          = drain processFn concurrency pick (settle processFn ?k q)"
        by (subst drain.simps) auto
      from "1.IH"(2) [OF False a faithful_settle [OF "1.prems"]] show ?thesis
        unfolding eq by (simp add: accounted_settle [OF k])
    next
      case b: False
      with False have eq: "drain processFn concurrency pick q = q"
        by (subst drain.simps) auto
      from False b have "1 \<le> concurrency \<longrightarrow> pending q = []" by auto
      with b "1.prems" show ?thesis unfolding eq by simp
    qed
  qed
qed

text \<open>
  C1. With a concurrency of at least 1, and whichever worker in flight settles next,
  \<open>processQueue\<close> returns its two buckets (it does not throw), and then nothing is
  queued or in flight any more: the buckets together have as many entries as there are
  items, every submitted item (with its index) has exactly one entry in the two buckets
  together, the entry is in \<^verbatim>\<open>succeeded\<close> with the worker's result or in \<^verbatim>\<open>failed\<close>
  with the error the worker threw, and every item on which the worker throws has its
  entry in \<^verbatim>\<open>failed\<close>.
\<close>

theorem processQueue_complete:
  assumes "1 \<le> concurrency"
  shows "\<exists>res. processQueue items processFn concurrency pick = Inr res
     \<and> length (succeeded res) + length (failed res) = length items
     \<and> mset (map successKey (succeeded res)) + mset (map failureKey (failed res))
         = mset (zip items [0..<length items])
     \<and> (\<forall>e \<in> set (succeeded res). processFn (s_item e) (s_index e) = Inr (s_result e))
     \<and> (\<forall>e \<in> set (failed res). processFn (f_item e) (f_index e) = Inl (f_error e))
     \<and> (\<forall>i < length items. \<forall>err. processFn (items ! i) i = Inl err \<longrightarrow>
           \<lparr>f_item = items ! i, f_error = err, f_index = i\<rparr> \<in> set (failed res))"
proof -
  let ?init = "queueInit items :: ('a, 'b) queue_state"
  let ?q = "drain processFn (nat concurrency) pick ?init"
  let ?res = "\<lparr>succeeded = q_succeeded ?q, failed = q_failed ?q\<rparr>"
  have f0: "faithful processFn ?init" by (simp add: faithful_def queueInit_def)
  from assms have c: "1 \<le> nat concurrency" by simp
  note inv = drain_invariant [OF f0, of "nat concurrency" pick]
  from inv have acc: "accounted ?q = accounted ?init" by (rule conjunct1)
  from inv have fa: "faithful processFn ?q" by (elim conjE)
  from inv have act: "active ?q = []" by (elim conjE)
  from inv c have pen: "pending ?q = []" by (elim conjE) (rule mp)
  have keys: "mset (map successKey (q_succeeded ?q)) + mset (map failureKey (q_failed ?q))
      = mset (zip items [0..<length items])"
    using acc act pen by (simp add: accounted_def queueInit_def)
  have run: "processQueue items processFn concurrency pick = Inr ?res"
    using assms by (simp add: processQueue_def Let_def)
  have len: "length (q_succeeded ?q) + length (q_failed ?q) = length items"
  proof -
    from keys have "size (mset (map successKey (q_succeeded ?q)) + mset (map failureKey (q_failed ?q)))
      = size (mset (zip items [0..<length items]))" by simp
    then show ?thesis by simp
  qed
  have thrown: "\<lparr>f_item = items ! i, f_error = err, f_index = i\<rparr> \<in> set (q_failed ?q)"
    if i: "i < length items" and err: "processFn (items ! i) i = Inl err" for i err
  proof -
    from i have "(items ! i, i) \<in> set (zip items [0..<length items])"
      by (auto simp: in_set_zip intro!: exI [of _ i])
    then have "(items ! i, i) \<in># mset (zip items [0..<length items])" by simp
    with keys have "(items ! i, i) \<in> set (map successKey (q_succeeded ?q))
        \<or> (items ! i, i) \<in> set (map failureKey (q_failed ?q))"
      by (metis set_mset_mset union_iff)
    then show ?thesis
    proof
      assume "(items ! i, i) \<in> set (map successKey (q_succeeded ?q))"
      then obtain e where "e \<in> set (q_succeeded ?q)" "s_item e = items ! i" "s_index e = i"
        by (auto simp: successKey_def)
      with fa err show ?thesis by (auto simp: faithful_def)
    next
      assume "(items ! i, i) \<in> set (map failureKey (q_failed ?q))"
      then obtain e where e: "e \<in> set (q_failed ?q)" "f_item e = items ! i" "f_index e = i"
        by (auto simp: failureKey_def)
      with fa err have "f_error e = err" by (auto simp: faithful_def)
      with e have "e = \<lparr>f_item = items ! i, f_error = err, f_index = i\<rparr>" by simp
      with e(1) show ?thesis by simp
    qed
  qed
  from run len keys fa thrown show ?thesis
    by (intro exI [of _ ?res]) (simp add: faithful_def)
qed

theorem processQueue_complete_witness:
  "(1::int) \<le> 2
   \<and> processQueue [''a'', ''b'', ''c''] (\<lambda>item index. if index = 1 then Inl (Error ''boom'') else Inr (item @ item)) 2 (\<lambda>q. 1)
       = Inr \<lparr>succeeded = [\<lparr>s_item = ''c'', s_result = ''cc'', s_index = 2\<rparr>,
                           \<lparr>s_item = ''a'', s_result = ''aa'', s_index = 0\<rparr>],
              failed = [\<lparr>f_item = ''b'', f_error = Error ''boom'', f_index = 1\<rparr>]\<rparr>"
proof -
  have a: "(1::int) \<le> 2" by simp
  have r: "processQueue [''a'', ''b'', ''c''] (\<lambda>item index. if index = 1 then Inl (Error ''boom'') else Inr (item @ item)) 2 (\<lambda>q. 1)
       = Inr \<lparr>succeeded = [\<lparr>s_item = ''c'', s_result = ''cc'', s_index = 2\<rparr>,
                           \<lparr>s_item = ''a'', s_result = ''aa'', s_index = 0\<rparr>],
              failed = [\<lparr>f_item = ''b'', f_error = Error ''boom'', f_index = 1\<rparr>]\<rparr>"
    by code_simp
  from processQueue_complete [OF a, where items = "[''a'', ''b'', ''c'']" and pick = "\<lambda>q. 1"
      and processFn = "\<lambda>item index. if index = 1 then Inl (Error ''boom'') else Inr (item @ item)"] a r
  show ?thesis by simp
qed

section \<open>Deduplication in the plain-text conversion\<close>

lemma remdups_adj_hd_tl: "remdups_adj (x # xs) = x # tl (remdups_adj (x # xs))"
  by (cases xs) auto

lemma tl_remdups_adj_same: "tl (remdups_adj (x # x # xs)) = tl (remdups_adj (x # xs))"
  by simp

lemma tl_remdups_adj_new: "x \<noteq> y \<Longrightarrow> tl (remdups_adj (x # y # xs)) = y # tl (remdups_adj (y # xs))"
  using remdups_adj_hd_tl [of y xs] by simp

lemma parseVTTLoop_dedup:
  "parseVTTLoop ls acc prev = acc @ tl (remdups_adj (prev # vttTextLines ls))"
proof (induction ls arbitrary: acc prev)
  case Nil
  show ?case by (simp add: vttTextLines_def)
next
  case (Cons raw rest)
  let ?line = "trim raw"
  show ?case
  proof (cases "?line = [] \<or> startsWith ?line ''WEBVTT'' \<or> includesStr ?line ''Kind:''
                 \<or> includesStr ?line ''Language:'' \<or> includesStr ?line ''-->''")
    case True
    then have "vttTextLines (raw # rest) = vttTextLines rest" by (simp add: vttTextLines_def)
    with True Cons.IH show ?thesis by simp
  next
    case False
    show ?thesis
    proof (cases "cleanText ?line = []")
      case True
      with False have "vttTextLines (raw # rest) = vttTextLines rest" by (simp add: vttTextLines_def)
      with True False Cons.IH show ?thesis by (simp add: Let_def)
    next
      case ne: False
      with False have v: "vttTextLines (raw # rest) = cleanText ?line # vttTextLines rest"
        by (simp add: vttTextLines_def)
      show ?thesis
      proof (cases "cleanText ?line = prev")
        case True
        with False ne Cons.IH show ?thesis unfolding v by (simp add: Let_def)
      next
        case new: False
        then have "prev \<noteq> cleanText ?line" by auto
        note t = tl_remdups_adj_new [OF this]
        from False ne new Cons.IH show ?thesis unfolding v t by (simp add: Let_def)
      qed
    qed
  qed
qed

lemma srtLoop_dedup:
  "srtLoop caps acc prev = acc @ tl (remdups_adj (prev # srtTexts caps))"
proof (induction caps arbitrary: acc prev)
  case Nil
  show ?case by (simp add: srtTexts_def)
next
  case (Cons c rest)
  show ?case
  proof (cases "srt_text c")
    case None
    then have "srtTexts (c # rest) = srtTexts rest" by (simp add: srtTexts_def)
    with None Cons.IH show ?thesis by simp
  next
    case (Some t)
    show ?thesis
    proof (cases "t = [] \<or> trim t = []")
      case True
      then have "trim t = []" by (auto simp: trim_def)
      with Some have "srtTexts (c # rest) = srtTexts rest" by (simp add: srtTexts_def)
      with Some True Cons.IH show ?thesis by (auto simp: Let_def)
    next
      case ne: False
      with Some have v: "srtTexts (c # rest) = trim t # srtTexts rest" by (simp add: srtTexts_def)
      show ?thesis
      proof (cases "trim t = prev")
        case True
        with Some ne Cons.IH show ?thesis unfolding v by (simp add: Let_def)
      next
        case new: False
        then have "prev \<noteq> trim t" by auto
        note tr = tl_remdups_adj_new [OF this]
        from Some ne new Cons.IH show ?thesis unfolding v tr by (simp add: Let_def)
      qed
    qed
  qed
qed

lemma tl_remdups_adj_Nil: "[] \<notin> set xs \<Longrightarrow> tl (remdups_adj ([] # xs)) = remdups_adj xs"
  by (cases xs) auto

lemma vttTextLines_nonempty: "[] \<notin> set (vttTextLines ls)"
  by (simp add: vttTextLines_def)

lemma srtTexts_nonempty: "[] \<notin> set (srtTexts caps)"
  by (simp add: srtTexts_def)

text \<open>
  C5, as the code has it. In the VTT path the unit is the text line: \<open>parseVTT\<close>
  drops a cleaned text line that equals the line retained before it, so its result is
  the text lines without adjacent repetitions, joined by single newlines. In the SRT
  path the unit is the cue: a cue whose trimmed text equals that of the cue retained
  before it is dropped. For cues of one line each, Hello, Hello, World, both paths give
  Hello, newline, World.
\<close>

theorem dedup_per_line_and_per_cue:
  "parseVTT content = joinWith [LF] (remdups_adj (vttTextLines (splitOn LF content)))
   \<and> plainTextOf (\<lambda>c. Inr caps) (path @ ''.srt'') content
       = Inr (joinWith [LF] (remdups_adj (srtTexts caps)))
   \<and> parseVTT (joinWith [LF] [''WEBVTT'', '''',
        ''00:00:00.000 --> 00:00:01.000'', ''Hello'', '''',
        ''00:00:01.000 --> 00:00:02.000'', ''Hello'', '''',
        ''00:00:02.000 --> 00:00:03.000'', ''World'', '''']) = ''Hello'' @ [LF] @ ''World''
   \<and> plainTextOf (\<lambda>c. Inr [\<lparr>srt_text = Some ''Hello''\<rparr>, \<lparr>srt_text = Some ''Hello''\<rparr>,
                                \<lparr>srt_text = Some ''World''\<rparr>]) ''a.en.srt'' content
       = Inr (''Hello'' @ [LF] @ ''World'')"
proof (intro conjI)
  show "parseVTT content = joinWith [LF] (remdups_adj (vttTextLines (splitOn LF content)))"
    by (simp add: parseVTT_def parseVTTLoop_dedup tl_remdups_adj_Nil [OF vttTextLines_nonempty])
  have e: "\<not> endsWith (path @ ''.srt'') ''.vtt''" by (simp add: endsWith_def)
  then show "plainTextOf (\<lambda>c. Inr caps) (path @ ''.srt'') content
       = Inr (joinWith [LF] (remdups_adj (srtTexts caps)))"
    by (simp add: plainTextOf_def srtLoop_dedup tl_remdups_adj_Nil [OF srtTexts_nonempty])
  show "parseVTT (joinWith [LF] [''WEBVTT'', '''',
        ''00:00:00.000 --> 00:00:01.000'', ''Hello'', '''',
        ''00:00:01.000 --> 00:00:02.000'', ''Hello'', '''',
        ''00:00:02.000 --> 00:00:03.000'', ''World'', '''']) = ''Hello'' @ [LF] @ ''World''"
    by code_simp
  show "plainTextOf (\<lambda>c. Inr [\<lparr>srt_text = Some ''Hello''\<rparr>, \<lparr>srt_text = Some ''Hello''\<rparr>,
                                \<lparr>srt_text = Some ''World''\<rparr>]) ''a.en.srt'' content
       = Inr (''Hello'' @ [LF] @ ''World'')"
    by code_simp
qed

text \<open>
  C5 as the claim states it fails in the VTT path: of two cues with the same two lines
  of text the second is not dropped, since its first line differs from the line
  retained last.
\<close>

theorem parseVTT_multiline_cue_counterexample:
  "parseVTT (joinWith [LF] [''WEBVTT'', '''',
        ''00:00:00.000 --> 00:00:01.000'', ''a'', ''b'', '''',
        ''00:00:01.000 --> 00:00:02.000'', ''a'', ''b'', ''''])
     = joinWith [LF] [''a'', ''b'', ''a'', ''b'']
   \<and> parseVTT (joinWith [LF] [''WEBVTT'', '''',
        ''00:00:00.000 --> 00:00:01.000'', ''a'', ''b'', '''',
        ''00:00:01.000 --> 00:00:02.000'', ''a'', ''b'', ''''])
     \<noteq> specPlainText [''a'' @ [LF] @ ''b'', ''a'' @ [LF] @ ''b'']"
  by code_simp

section \<open>The text of a cue with timestamps\<close>

lemma cleanText_Nil: "cleanText [] = []"
  by (simp add: cleanText_def trim_def)

lemma vttStep_headerLine: "headerLine (trim raw) \<Longrightarrow> vttStep st raw = st"
  by (simp add: vttStep_def headerLine_def)

lemma vttStep_idle:
  assumes "currentCaption st = None" and "\<not> rangeLine raw"
  shows "vttStep st raw = st"
proof (cases "headerLine (trim raw)")
  case True
  then show ?thesis by (rule vttStep_headerLine)
next
  case False
  with assms(2) have "timestampMatch (trim raw) = None"
    by (cases "timestampMatch (trim raw)") (auto simp: rangeLine_def)
  with False assms(1) show ?thesis by (simp add: vttStep_def headerLine_def Let_def)
qed

lemma foldl_vttStep_idle:
  "currentCaption st = None \<Longrightarrow> list_all (\<lambda>raw. \<not> rangeLine raw) ls \<Longrightarrow> foldl vttStep st ls = st"
  by (induction ls) (simp_all add: vttStep_idle)

lemma textAfter_Nil: "textAfter t [] = t"
  by (simp add: textAfter_def cleanedLines_def)

lemma textAfter_Cons:
  "textAfter t (raw # body) =
     textAfter (if \<not> headerLine (trim raw) \<and> cleanText (trim raw) \<noteq> [] then cleanText (trim raw) else t) body"
  by (simp add: textAfter_def cleanedLines_def)

lemma vttStep_text:
  assumes "currentCaption st = Some c" and "\<not> rangeLine raw"
  shows "vttStep st raw =
     st\<lparr>currentCaption := Some (c\<lparr>c_text :=
        (if \<not> headerLine (trim raw) \<and> cleanText (trim raw) \<noteq> [] then cleanText (trim raw)
         else c_text c)\<rparr>)\<rparr>"
proof (cases "headerLine (trim raw)")
  case True
  with assms show ?thesis by (simp add: vttStep_headerLine)
next
  case False
  with assms(2) have "timestampMatch (trim raw) = None"
    by (cases "timestampMatch (trim raw)") (auto simp: rangeLine_def)
  with False assms(1) show ?thesis
    by (cases "trim raw = []") (auto simp: vttStep_def headerLine_def Let_def cleanText_Nil)
qed

lemma foldl_vttStep_text:
  "currentCaption st = Some c \<Longrightarrow> list_all (\<lambda>raw. \<not> rangeLine raw) body \<Longrightarrow>
   foldl vttStep st body = st\<lparr>currentCaption := Some (c\<lparr>c_text := textAfter (c_text c) body\<rparr>)\<rparr>"
proof (induction body arbitrary: st c)
  case Nil
  then show ?case by (simp add: textAfter_Nil)
next
  case (Cons raw body)
  let ?t = "if \<not> headerLine (trim raw) \<and> cleanText (trim raw) \<noteq> [] then cleanText (trim raw)
            else c_text c"
  let ?st = "st\<lparr>currentCaption := Some (c\<lparr>c_text := ?t\<rparr>)\<rparr>"
  from Cons.prems have s: "vttStep st raw = ?st" by (simp add: vttStep_text)
  have "foldl vttStep ?st body
      = ?st\<lparr>currentCaption := Some ((c\<lparr>c_text := ?t\<rparr>)\<lparr>c_text := textAfter (c_text (c\<lparr>c_text := ?t\<rparr>)) body\<rparr>)\<rparr>"
    using Cons.prems by (intro Cons.IH) simp_all
  then show ?case
    unfolding foldl_Cons s textAfter_Cons by simp
qed

lemma vttStep_range:
  assumes "rangeLine raw"
  shows "\<exists>s e. timestampMatch (trim raw) = Some (s, e)
     \<and> vttStep st raw = (pushCurrent st)\<lparr>currentCaption := Some \<lparr>c_start = s, c_end = e, c_text = []\<rparr>\<rparr>"
proof -
  from assms obtain s e where m: "timestampMatch (trim raw) = Some (s, e)"
    by (auto simp: rangeLine_def)
  from assms have h: "\<not> headerLine (trim raw)" by (simp add: rangeLine_def)
  from m h have "vttStep st raw
      = (pushCurrent st)\<lparr>currentCaption := Some \<lparr>c_start = s, c_end = e, c_text = []\<rparr>\<rparr>"
    by (simp add: vttStep_def headerLine_def pushCurrent_def Let_def)
  with m show ?thesis by blast
qed

lemma vttFinish_retained:
  "vttFinish st = captions st @ retained (previousText st) (waiting st)"
  by (simp add: vttFinish_def waiting_def split: option.splits)

lemma pushCurrent_retained:
  "captions (pushCurrent st) @ retained (previousText (pushCurrent st)) cs
     = captions st @ retained (previousText st) (waiting st @ cs)"
  by (simp add: pushCurrent_def waiting_def split: option.splits)

lemma block_step:
  assumes "cueBlock b"
  shows "\<exists>st'. foldl vttStep st (blockLines b) = st'
           \<and> captions st' = captions (pushCurrent st)
           \<and> previousText st' = previousText (pushCurrent st)
           \<and> currentCaption st' = Some (blockCaption b)"
proof -
  from assms have r: "rangeLine (fst b)" and body: "list_all (\<lambda>raw. \<not> rangeLine raw) (snd b)"
    by (simp_all add: cueBlock_def)
  from vttStep_range [OF r, of st] obtain s e where
    m: "timestampMatch (trim (fst b)) = Some (s, e)" and
    st1: "vttStep st (fst b) = (pushCurrent st)\<lparr>currentCaption := Some \<lparr>c_start = s, c_end = e, c_text = []\<rparr>\<rparr>"
    by blast
  let ?st1 = "(pushCurrent st)\<lparr>currentCaption := Some \<lparr>c_start = s, c_end = e, c_text = []\<rparr>\<rparr>"
  have "foldl vttStep ?st1 (snd b)
      = ?st1\<lparr>currentCaption := Some (\<lparr>c_start = s, c_end = e, c_text = []\<rparr>
                  \<lparr>c_text := textAfter (c_text \<lparr>c_start = s, c_end = e, c_text = []\<rparr>) (snd b)\<rparr>)\<rparr>"
    using body by (intro foldl_vttStep_text) simp_all
  then have "foldl vttStep st (blockLines b)
      = ?st1\<lparr>currentCaption := Some \<lparr>c_start = s, c_end = e, c_text = lastText (snd b)\<rparr>\<rparr>"
    by (simp add: blockLines_def st1 textAfter_def lastText_def)
  with m show ?thesis by (simp add: blockCaption_def)
qed

lemma blocks_fold:
  "list_all cueBlock blocks \<Longrightarrow>
   vttFinish (foldl vttStep st (concat (map blockLines blocks)))
     = captions st @ retained (previousText st) (waiting st @ map blockCaption blocks)"
proof (induction blocks arbitrary: st)
  case Nil
  show ?case by (simp add: vttFinish_retained)
next
  case (Cons b blocks)
  from Cons.prems have b: "cueBlock b" and rest: "list_all cueBlock blocks" by simp_all
  from block_step [OF b, of st] obtain st' where
    st': "foldl vttStep st (blockLines b) = st'"
      "captions st' = captions (pushCurrent st)"
      "previousText st' = previousText (pushCurrent st)"
      "currentCaption st' = Some (blockCaption b)"
    by blast
  have "vttFinish (foldl vttStep st (concat (map blockLines (b # blocks))))
      = vttFinish (foldl vttStep st' (concat (map blockLines blocks)))"
    by (simp add: st'(1))
  also have "\<dots> = captions st' @ retained (previousText st') (waiting st' @ map blockCaption blocks)"
    by (rule Cons.IH [OF rest])
  also have "\<dots> = captions (pushCurrent st)
      @ retained (previousText (pushCurrent st)) (blockCaption b # map blockCaption blocks)"
    by (simp add: st' waiting_def)
  also have "\<dots> = captions st @ retained (previousText st) (waiting st @ blockCaption b # map blockCaption blocks)"
    by (rule pushCurrent_retained)
  finally show ?case by simp
qed

text \<open>
  C6, as the code has it. Every range line opens a new cue with its start and end
  timecodes; of the lines that follow it up to the next range line or the end of the
  input, the last one with a non-empty cleaned text is the text of the cue: a later
  line replaces an earlier one, they are not concatenated. The cues are then kept as
  \<open>retained\<close> says. This holds for every document, cut into the lines before the
  first range line and the blocks from there on.
\<close>

theorem parseVTTWithTimestamps_last_line:
  assumes "splitOn LF content = preamble @ concat (map blockLines blocks)"
    and "list_all (\<lambda>raw. \<not> rangeLine raw) preamble"
    and "list_all cueBlock blocks"
  shows "parseVTTWithTimestamps content = retained [] (map blockCaption blocks)"
proof -
  have "foldl vttStep vttInit preamble = vttInit"
    using assms(2) by (intro foldl_vttStep_idle) (simp_all add: vttInit_def)
  then have "parseVTTWithTimestamps content
      = vttFinish (foldl vttStep vttInit (concat (map blockLines blocks)))"
    by (simp add: parseVTTWithTimestamps_def parseVTTLines_def assms(1))
  also have "\<dots> = captions vttInit @ retained (previousText vttInit)
                      (waiting vttInit @ map blockCaption blocks)"
    by (rule blocks_fold [OF assms(3)])
  finally show ?thesis by (simp add: vttInit_def waiting_def)
qed

theorem parseVTTWithTimestamps_last_line_witness:
  "parseVTTWithTimestamps (joinWith [LF] [''WEBVTT'', '''',
        ''00:00:00.000 --> 00:00:01.000'', ''first line'', ''second line'', '''',
        ''00:00:01.000 --> 00:00:02.000'', ''third line''])
   = [\<lparr>c_start = ''00:00:00.000'', c_end = ''00:00:01.000'', c_text = ''second line''\<rparr>,
      \<lparr>c_start = ''00:00:01.000'', c_end = ''00:00:02.000'', c_text = ''third line''\<rparr>]"
proof -
  let ?blocks = "[(''00:00:00.000 --> 00:00:01.000'', [''first line'', ''second line'', '''']),
                  (''00:00:01.000 --> 00:00:02.000'', [''third line''])]"
  have a: "splitOn LF (joinWith [LF] [''WEBVTT'', '''',
        ''00:00:00.000 --> 00:00:01.000'', ''first line'', ''second line'', '''',
        ''00:00:01.000 --> 00:00:02.000'', ''third line''])
      = [''WEBVTT'', ''''] @ concat (map blockLines ?blocks)"
    by code_simp
  have b: "list_all (\<lambda>raw. \<not> rangeLine raw) [''WEBVTT'', '''']" by code_simp
  have c: "list_all cueBlock ?blocks" by code_simp
  have d: "retained [] (map blockCaption ?blocks)
      = [\<lparr>c_start = ''00:00:00.000'', c_end = ''00:00:01.000'', c_text = ''second line''\<rparr>,
         \<lparr>c_start = ''00:00:01.000'', c_end = ''00:00:02.000'', c_text = ''third line''\<rparr>]"
    by code_simp
  from parseVTTWithTimestamps_last_line [OF a b c] d show ?thesis by simp
qed

text \<open>
  C6 as the claim states it fails: of a cue with two lines of text only the second is
  in the text of the cue.
\<close>

theorem parseVTTWithTimestamps_concatenation_counterexample:
  "parseVTTWithTimestamps (joinWith [LF] [''WEBVTT'', '''',
        ''00:00:00.000 --> 00:00:01.000'', ''first line'', ''second line''])
     = [\<lparr>c_start = ''00:00:00.000'', c_end = ''00:00:01.000'', c_text = ''second line''\<rparr>]
   \<and> \<not> includesStr (c_text (hd (parseVTTWithTimestamps (joinWith [LF] [''WEBVTT'', '''',
        ''00:00:00.000 --> 00:00:01.000'', ''first line'', ''second line''])))) ''first line''"
  by code_simp

end
